theory Spec2Isabelle
  imports Complex_Main
begin

section \<open>NumPy float64 values\<close>

text \<open>
  Every number that \<open>postural_control\<close> computes with is a NumPy \<open>float64\<close>
  scalar: the angles come out of a DataFrame, the coordinates out of \<open>np.cos\<close>,
  \<open>np.sin\<close> and \<open>ndarray.dot\<close>. The model keeps the special values of IEEE 754 that
  steer the control flow of the program (NaN and the two infinities) and idealises the
  finite values as exact reals: no rounding, no overflow, and no distinction between
  \<open>+0.0\<close> and \<open>-0.0\<close>. NumPy does not raise on an invalid operation (it emits a
  warning and returns NaN), so none of the operations below has an error branch.

  What the idealisation leaves out, and how the statements below allow for it:
  \<^item> Rounding. Where the program subtracts nearly equal numbers (the radicand
    \<open>z**2 + y**2 - o**2\<close> at zero reach and at the hip offset boundary), the computed
    value can be zero or negative where the exact one is positive, and the reverse. A
    statement about returned values therefore either concerns one fixed input, or keeps
    a margin from those places in its hypotheses, or holds for any value of the
    candidate angles whatever.
  \<^item> Overflow. Built-in Python floats raise \<open>OverflowError\<close> in \<open>x ** 2\<close> beyond
    about \<open>1.3e154\<close>, where a float64 scalar gives infinity. Magnitudes of that size
    are outside the model; a statement that quantifies over the arguments of the
    kinematics bounds them.
\<close>

datatype npfloat = Fin real | PInf | NInf | NaN

instantiation npfloat :: "{plus, uminus, minus, times, inverse, abs}"
begin

fun plus_npfloat :: "npfloat \<Rightarrow> npfloat \<Rightarrow> npfloat" where
  "plus_npfloat NaN b = NaN"
| "plus_npfloat a NaN = NaN"
| "plus_npfloat (Fin a) (Fin b) = Fin (a + b)"
| "plus_npfloat PInf NInf = NaN"
| "plus_npfloat NInf PInf = NaN"
| "plus_npfloat PInf b = PInf"
| "plus_npfloat a PInf = PInf"
| "plus_npfloat NInf b = NInf"
| "plus_npfloat a NInf = NInf"

fun uminus_npfloat :: "npfloat \<Rightarrow> npfloat" where
  "uminus_npfloat (Fin a) = Fin (- a)"
| "uminus_npfloat PInf = NInf"
| "uminus_npfloat NInf = PInf"
| "uminus_npfloat NaN = NaN"

definition minus_npfloat :: "npfloat \<Rightarrow> npfloat \<Rightarrow> npfloat" where
  "minus_npfloat a b = a + (- b)"

fun times_npfloat :: "npfloat \<Rightarrow> npfloat \<Rightarrow> npfloat" where
  "times_npfloat NaN b = NaN"
| "times_npfloat a NaN = NaN"
| "times_npfloat (Fin a) (Fin b) = Fin (a * b)"
| "times_npfloat (Fin a) PInf = (if a = 0 then NaN else if 0 < a then PInf else NInf)"
| "times_npfloat (Fin a) NInf = (if a = 0 then NaN else if 0 < a then NInf else PInf)"
| "times_npfloat PInf (Fin b) = (if b = 0 then NaN else if 0 < b then PInf else NInf)"
| "times_npfloat NInf (Fin b) = (if b = 0 then NaN else if 0 < b then NInf else PInf)"
| "times_npfloat PInf PInf = PInf"
| "times_npfloat PInf NInf = NInf"
| "times_npfloat NInf PInf = NInf"
| "times_npfloat NInf NInf = PInf"

fun divide_npfloat :: "npfloat \<Rightarrow> npfloat \<Rightarrow> npfloat" where
  "divide_npfloat NaN b = NaN"
| "divide_npfloat a NaN = NaN"
| "divide_npfloat (Fin a) (Fin b) =
     (if b \<noteq> 0 then Fin (a / b)
      else if a = 0 then NaN else if 0 < a then PInf else NInf)"
| "divide_npfloat (Fin a) b = Fin 0"
| "divide_npfloat PInf (Fin b) = (if b < 0 then NInf else PInf)"
| "divide_npfloat NInf (Fin b) = (if b < 0 then PInf else NInf)"
| "divide_npfloat a b = NaN"

definition inverse_npfloat :: "npfloat \<Rightarrow> npfloat" where
  "inverse_npfloat a = divide (Fin 1) a"

fun abs_npfloat :: "npfloat \<Rightarrow> npfloat" where
  "abs_npfloat (Fin a) = Fin \<bar>a\<bar>"
| "abs_npfloat PInf = PInf"
| "abs_npfloat NInf = PInf"
| "abs_npfloat NaN = NaN"

instance ..

end

text \<open>\<open>x ** 2\<close> on a float64.\<close>

definition sq :: "npfloat \<Rightarrow> npfloat" where
  "sq a = a * a"

text \<open>Python's \<open>a < b\<close> on floats: every comparison with NaN is False.\<close>

fun flt :: "npfloat \<Rightarrow> npfloat \<Rightarrow> bool" where
  "flt (Fin a) (Fin b) = (a < b)"
| "flt (Fin a) PInf = True"
| "flt NInf (Fin b) = True"
| "flt NInf PInf = True"
| "flt a b = False"

fun np_sqrt :: "npfloat \<Rightarrow> npfloat" where
  "np_sqrt (Fin a) = (if a < 0 then NaN else Fin (sqrt a))"
| "np_sqrt PInf = PInf"
| "np_sqrt a = NaN"

fun np_cos :: "npfloat \<Rightarrow> npfloat" where
  "np_cos (Fin a) = Fin (cos a)"
| "np_cos a = NaN"

fun np_sin :: "npfloat \<Rightarrow> npfloat" where
  "np_sin (Fin a) = Fin (sin a)"
| "np_sin a = NaN"

fun np_arccos :: "npfloat \<Rightarrow> npfloat" where
  "np_arccos (Fin a) = (if - 1 \<le> a \<and> a \<le> 1 then Fin (arccos a) else NaN)"
| "np_arccos a = NaN"

text \<open>
  The two-argument arctangent on reals: the angle in \<open>(-\<pi>, \<pi>]\<close> of the point
  \<open>(x, y)\<close>, and 0 at the origin. On the negative x axis NumPy answers \<open>\<pi>\<close> for
  \<open>y = +0.0\<close> and \<open>-\<pi>\<close> for \<open>y = -0.0\<close>; the model, which has one zero, answers
  \<open>\<pi>\<close>. Both values lie outside every motor range.
\<close>

definition arctan2 :: "real \<Rightarrow> real \<Rightarrow> real" where
  "arctan2 y x =
     (if 0 < x then arctan (y / x)
      else if x < 0 then (if 0 \<le> y then arctan (y / x) + pi else arctan (y / x) - pi)
      else if 0 < y then pi / 2
      else if y < 0 then - (pi / 2)
      else 0)"

fun np_arctan2 :: "npfloat \<Rightarrow> npfloat \<Rightarrow> npfloat" where
  "np_arctan2 NaN x = NaN"
| "np_arctan2 y NaN = NaN"
| "np_arctan2 (Fin y) (Fin x) = Fin (arctan2 y x)"
| "np_arctan2 (Fin y) PInf = Fin 0"
| "np_arctan2 (Fin y) NInf = (if 0 \<le> y then Fin pi else Fin (- pi))"
| "np_arctan2 PInf (Fin x) = Fin (pi / 2)"
| "np_arctan2 NInf (Fin x) = Fin (- (pi / 2))"
| "np_arctan2 PInf PInf = Fin (pi / 4)"
| "np_arctan2 PInf NInf = Fin (3 * pi / 4)"
| "np_arctan2 NInf PInf = Fin (- (pi / 4))"
| "np_arctan2 NInf NInf = Fin (- (3 * pi / 4))"

section \<open>Leg geometry\<close>

text \<open>The members of \<open>A1.Leg\<close> and \<open>A1.Motor\<close>.\<close>

datatype leg = FR | FL | HR | HL

datatype motor = H_aa | H_fe | Knee

text \<open>The columns of \<open>motor_indices\<close> (\<open>Leg.list()\<close>) and its rows (\<open>Motor.list()\<close>), in order.\<close>

definition leg_list :: "leg list" where
  "leg_list = [FR, FL, HR, HL]"

definition motor_list :: "motor list" where
  "motor_list = [H_aa, H_fe, Knee]"

fun motor_indices :: "motor \<Rightarrow> leg \<Rightarrow> nat" where
  "motor_indices H_aa FR = 1" | "motor_indices H_aa FL = 6"
| "motor_indices H_aa HR = 11" | "motor_indices H_aa HL = 16"
| "motor_indices H_fe FR = 3" | "motor_indices H_fe FL = 8"
| "motor_indices H_fe HR = 13" | "motor_indices H_fe HL = 18"
| "motor_indices Knee FR = 4" | "motor_indices Knee FL = 9"
| "motor_indices Knee HR = 14" | "motor_indices Knee HL = 19"

definition thigh_len :: real where "thigh_len = 200"
definition shank_len :: real where "shank_len = 200"
definition hip_offset :: real where "hip_offset = 80"
definition body_len :: real where "body_len = 360"
definition body_width :: real where "body_width = 200"

section \<open>Forward and inverse kinematics\<close>

type_synonym angles = "npfloat \<times> npfloat \<times> npfloat"

type_synonym toe = "npfloat \<times> npfloat \<times> npfloat"

text \<open>\<open>A1._forward_kinematics\<close>: the toe point relative to the hip.\<close>

definition forward_kinematics :: "leg \<Rightarrow> npfloat \<Rightarrow> npfloat \<Rightarrow> npfloat \<Rightarrow> toe" where
  "forward_kinematics leg \<theta>0 \<theta>1 \<theta>2 =
     (let l1 = Fin thigh_len;
          l2 = Fin shank_len;
          off = Fin hip_offset;
          h = l1 * np_cos \<theta>1 + l2 * np_cos (\<theta>1 + \<theta>2);
          x = - l1 * np_sin \<theta>1 - l2 * np_sin (\<theta>1 + \<theta>2)
      in case leg of
           FR \<Rightarrow> (x, off * np_cos \<theta>0 - h * np_sin \<theta>0, - off * np_sin \<theta>0 - h * np_cos \<theta>0)
         | HR \<Rightarrow> (x, off * np_cos \<theta>0 - h * np_sin \<theta>0, - off * np_sin \<theta>0 - h * np_cos \<theta>0)
         | FL \<Rightarrow> (x, - off * np_cos \<theta>0 - h * np_sin \<theta>0, off * np_sin \<theta>0 - h * np_cos \<theta>0)
         | HL \<Rightarrow> (x, - off * np_cos \<theta>0 - h * np_sin \<theta>0, off * np_sin \<theta>0 - h * np_cos \<theta>0))"

text \<open>
  \<open>A1._inverse_kinematics\<close>. The source has no check of its own: a square root of a
  negative number or an arccosine outside \<open>[-1, 1]\<close> is NumPy's NaN, which the
  arithmetic carries into the returned triple. The radicand of \<open>h\<close> is where the
  exact arithmetic of the model and the rounding of the program part company: within a
  few units in the last place of zero the program may return NaN or \<open>0.0\<close> for
  \<open>h\<close> where the model returns the exact root.
\<close>

definition inverse_kinematics :: "leg \<Rightarrow> npfloat \<Rightarrow> npfloat \<Rightarrow> npfloat \<Rightarrow> angles" where
  "inverse_kinematics leg x y z =
     (let l1 = thigh_len;
          l2 = shank_len;
          off = hip_offset;
          h = np_sqrt (sq z + sq y - Fin (off\<^sup>2));
          cos\<theta>2 = (Fin (- (l1\<^sup>2) - l2\<^sup>2) + sq x + sq h) / Fin (2 * l1 * l2);
          sin\<theta>2 = - np_sqrt (Fin 1 - sq cos\<theta>2);
          \<theta>0 = (case leg of
                  FR \<Rightarrow> np_arctan2 \<bar>z\<bar> y - np_arctan2 h (Fin off)
                | HR \<Rightarrow> np_arctan2 \<bar>z\<bar> y - np_arctan2 h (Fin off)
                | FL \<Rightarrow> np_arctan2 h (Fin off) - np_arctan2 \<bar>z\<bar> (- y)
                | HL \<Rightarrow> np_arctan2 h (Fin off) - np_arctan2 \<bar>z\<bar> (- y));
          \<theta>1 = np_arccos ((Fin (l1\<^sup>2) + sq x + sq h - Fin (l2\<^sup>2))
                          / (Fin (2 * l1) * np_sqrt (sq x + sq h)))
               - np_arctan2 x h;
          \<theta>2 = np_arctan2 sin\<theta>2 cos\<theta>2
      in (\<theta>0, \<theta>1, \<theta>2))"

section \<open>Posture control\<close>

text \<open>
  A posture is the DataFrame of \<open>current_posture\<close>: one column per leg, holding the
  angles of the three motors of that leg in the row order of \<open>Motor.list()\<close>.
  A DataFrame passed as \<open>reference_posture\<close> has the same shape: the four legs as
  columns in the order of \<open>Leg.list()\<close>, which is the order the loop visits them in.
\<close>

type_synonym posture = "leg \<Rightarrow> angles"

fun component :: "motor \<Rightarrow> angles \<Rightarrow> npfloat" where
  "component H_aa (\<theta>0, \<theta>1, \<theta>2) = \<theta>0"
| "component H_fe (\<theta>0, \<theta>1, \<theta>2) = \<theta>1"
| "component Knee (\<theta>0, \<theta>1, \<theta>2) = \<theta>2"

type_synonym vec3 = "npfloat \<times> npfloat \<times> npfloat"
type_synonym vec4 = "npfloat \<times> npfloat \<times> npfloat \<times> npfloat"
type_synonym mat3 = "vec3 \<times> vec3 \<times> vec3"
type_synonym mat4 = "vec4 \<times> vec4 \<times> vec4 \<times> vec4"

text \<open>\<open>ndarray.dot\<close> of a matrix with a vector: every row contributes all its products.\<close>

fun dot3 :: "mat3 \<Rightarrow> vec3 \<Rightarrow> vec3" where
  "dot3 ((a0, a1, a2), (b0, b1, b2), (c0, c1, c2)) (x, y, z) =
     (a0 * x + a1 * y + a2 * z,
      b0 * x + b1 * y + b2 * z,
      c0 * x + c1 * y + c2 * z)"

fun dot4 :: "mat4 \<Rightarrow> vec4 \<Rightarrow> vec4" where
  "dot4 ((a0, a1, a2, a3), (b0, b1, b2, b3), (c0, c1, c2, c3), (d0, d1, d2, d3)) (x, y, z, w) =
     (a0 * x + a1 * y + a2 * z + a3 * w,
      b0 * x + b1 * y + b2 * z + b3 * w,
      c0 * x + c1 * y + c2 * z + c3 * w,
      d0 * x + d1 * y + d2 * z + d3 * w)"

text \<open>The three affine transforms of the loop body, selected by the \<open>match leg\<close> statements.\<close>

definition roll :: "leg \<Rightarrow> npfloat \<Rightarrow> npfloat \<Rightarrow> mat4" where
  "roll leg \<gamma> W =
     (if leg = FR \<or> leg = HR
      then ((Fin 1, Fin 0, Fin 0, Fin 0),
            (Fin 0, np_cos \<gamma>, - np_sin \<gamma>, W * np_cos \<gamma> - W),
            (Fin 0, np_sin \<gamma>, np_cos \<gamma>, W * np_sin \<gamma>),
            (Fin 0, Fin 0, Fin 0, Fin 1))
      else ((Fin 1, Fin 0, Fin 0, Fin 0),
            (Fin 0, np_cos \<gamma>, - np_sin \<gamma>, - W * np_cos \<gamma> + W),
            (Fin 0, np_sin \<gamma>, np_cos \<gamma>, - W * np_sin \<gamma>),
            (Fin 0, Fin 0, Fin 0, Fin 1)))"

definition pitch :: "leg \<Rightarrow> npfloat \<Rightarrow> npfloat \<Rightarrow> mat3" where
  "pitch leg \<beta> L =
     (if leg = FR \<or> leg = FL
      then ((np_cos \<beta>, - np_sin \<beta>, L * np_cos \<beta> - L),
            (np_sin \<beta>, np_cos \<beta>, L * np_sin \<beta>),
            (Fin 0, Fin 0, Fin 1))
      else ((np_cos \<beta>, - np_sin \<beta>, - L * np_cos \<beta> + L),
            (np_sin \<beta>, np_cos \<beta>, - L * np_sin \<beta>),
            (Fin 0, Fin 0, Fin 1)))"

definition yaw :: "leg \<Rightarrow> npfloat \<Rightarrow> npfloat \<Rightarrow> npfloat \<Rightarrow> mat4" where
  "yaw leg \<alpha> L W =
     (case leg of
        FR \<Rightarrow> ((np_cos \<alpha>, - np_sin \<alpha>, Fin 0, L * np_cos \<alpha> - W * np_sin \<alpha> - L),
               (np_sin \<alpha>, np_cos \<alpha>, Fin 0, L * np_sin \<alpha> + W * np_cos \<alpha> - W),
               (Fin 0, Fin 0, Fin 1, Fin 0),
               (Fin 0, Fin 0, Fin 0, Fin 1))
      | FL \<Rightarrow> ((np_cos \<alpha>, - np_sin \<alpha>, Fin 0, L * np_cos \<alpha> + W * np_sin \<alpha> - L),
               (np_sin \<alpha>, np_cos \<alpha>, Fin 0, L * np_sin \<alpha> - W * np_cos \<alpha> + W),
               (Fin 0, Fin 0, Fin 1, Fin 0),
               (Fin 0, Fin 0, Fin 0, Fin 1))
      | HR \<Rightarrow> ((np_cos \<alpha>, - np_sin \<alpha>, Fin 0, - L * np_cos \<alpha> - W * np_sin \<alpha> + L),
               (np_sin \<alpha>, np_cos \<alpha>, Fin 0, - L * np_sin \<alpha> + W * np_cos \<alpha> - W),
               (Fin 0, Fin 0, Fin 1, Fin 0),
               (Fin 0, Fin 0, Fin 0, Fin 1))
      | HL \<Rightarrow> ((np_cos \<alpha>, - np_sin \<alpha>, Fin 0, - L * np_cos \<alpha> + W * np_sin \<alpha> + L),
               (np_sin \<alpha>, np_cos \<alpha>, Fin 0, - L * np_sin \<alpha> - W * np_cos \<alpha> + W),
               (Fin 0, Fin 0, Fin 1, Fin 0),
               (Fin 0, Fin 0, Fin 0, Fin 1)))"

text \<open>
  One pass of the loop body up to the assignment \<open>\<theta>[0], \<theta>[1], \<theta>[2] = ...\<close>: the
  candidate angles of one leg, from the angles \<open>\<theta>\<close> that the posture holds for it.
  Built from the two kinematics functions, it is exact where the program rounds: with no
  adjustment it gives a toe-below-hip triple back unchanged, where the program gives it
  back to within rounding (for a start at 0.803 the program computes
  \<open>0.8029999999999999\<close>).
\<close>

definition candidate :: "npfloat \<Rightarrow> npfloat \<Rightarrow> npfloat \<Rightarrow> npfloat \<Rightarrow> leg \<Rightarrow> angles \<Rightarrow> angles" where
  "candidate yaw_angle pitch_angle roll_angle \<Delta>z leg \<theta> =
     (let \<alpha> = yaw_angle;
          \<beta> = pitch_angle;
          \<gamma> = roll_angle;
          L = Fin (body_len / 2);
          W = Fin (body_width / 2);
          (x, y, z) = forward_kinematics leg (component H_aa \<theta>) (component H_fe \<theta>) (component Knee \<theta>);
          z = z - \<Delta>z;
          (x, y, z, u) = dot4 (roll leg \<gamma> W) (x, y, z, Fin 1);
          (x, z, u) = dot3 (pitch leg \<beta> L) (x, z, Fin 1);
          (x, y, z, u) = dot4 (yaw leg \<alpha> L W) (x, y, z, Fin 1)
      in inverse_kinematics leg x y z)"

text \<open>
  The test \<open>all([-0.803<\<theta>[0]<0.803, -1.047<\<theta>[1]<4.189, -2.697<\<theta>[2]<-0.916])\<close>.
\<close>

definition limits_ok :: "angles \<Rightarrow> bool" where
  "limits_ok \<theta> =
     ((flt (Fin (- 0.803)) (component H_aa \<theta>) \<and> flt (component H_aa \<theta>) (Fin 0.803)) \<and>
      (flt (Fin (- 1.047)) (component H_fe \<theta>) \<and> flt (component H_fe \<theta>) (Fin 4.189)) \<and>
      (flt (Fin (- 2.697)) (component Knee \<theta>) \<and> flt (component Knee \<theta>) (Fin (- 0.916))))"

text \<open>
  The state that \<open>postural_control\<close> reads and writes: the simulation's joints (the
  positions that \<open>getJointState\<close> reports and the position targets that
  \<open>setJointMotorControlArray\<close> sets, with the trace of those calls), the DataFrame
  objects (a store from references to postures, \<open>next_ref\<close> the first unused
  reference) and the log.
\<close>

record world =
  joint_position :: "nat \<Rightarrow> npfloat"
  joint_target :: "nat \<Rightarrow> npfloat"
  commands :: "(nat list \<times> npfloat list) list"
  frames :: "nat \<Rightarrow> posture"
  next_ref :: nat
  log :: "string list"

text \<open>\<open>current_posture\<close>: a new DataFrame of the sensed positions.\<close>

definition current_posture :: "world \<Rightarrow> nat \<times> world" where
  "current_posture w =
     (let p = next_ref w;
          sensed = (\<lambda>leg. (joint_position w (motor_indices H_aa leg),
                           joint_position w (motor_indices H_fe leg),
                           joint_position w (motor_indices Knee leg)))
      in (p, w\<lparr>frames := (frames w)(p := sensed), next_ref := Suc p\<rparr>))"

text \<open>\<open>DataFrame.copy()\<close>: a new object with the same contents.\<close>

definition copy :: "nat \<Rightarrow> world \<Rightarrow> nat \<times> world" where
  "copy r w =
     (let p = next_ref w
      in (p, w\<lparr>frames := (frames w)(p := frames w r), next_ref := Suc p\<rparr>))"

text \<open>
  \<open>setJointMotorControlArray\<close> in position control: the call is recorded and each
  listed joint gets its target.
\<close>

definition setJointMotorControlArray :: "nat list \<Rightarrow> npfloat list \<Rightarrow> world \<Rightarrow> world" where
  "setJointMotorControlArray jointIndices targetPositions w =
     w\<lparr>commands := commands w @ [(jointIndices, targetPositions)],
       joint_target := fold (\<lambda>(i, v) t. t(i := v)) (zip jointIndices targetPositions) (joint_target w)\<rparr>"

text \<open>
  The loop \<open>for leg, \<theta> in posture.items()\<close> over the posture object \<open>p\<close>. The
  assignment to \<open>\<theta>\<close> writes through to the column of \<open>p\<close> (the source says so next
  to the loop header), and it comes before the test of the limits. The result is
  \<open>False\<close> when the loop left through \<open>return\<close>.
\<close>

fun leg_loop ::
  "npfloat \<Rightarrow> npfloat \<Rightarrow> npfloat \<Rightarrow> npfloat \<Rightarrow> nat \<Rightarrow> leg list \<Rightarrow> world \<Rightarrow> bool \<times> world" where
  "leg_loop yaw_angle pitch_angle roll_angle \<Delta>z p [] w = (True, w)"
| "leg_loop yaw_angle pitch_angle roll_angle \<Delta>z p (leg # legs) w =
     (let \<theta> = candidate yaw_angle pitch_angle roll_angle \<Delta>z leg (frames w p leg);
          w = w\<lparr>frames := (frames w)(p := (frames w p)(leg := \<theta>))\<rparr>
      in if \<not> limits_ok \<theta>
         then (False, w\<lparr>log := log w @ [''Motor limit reached'']\<rparr>)
         else leg_loop yaw_angle pitch_angle roll_angle \<Delta>z p legs w)"

text \<open>
  The second loop: \<open>itertuples\<close> walks the rows of both DataFrames, so there is one
  call per motor, with the joints and the angles of that motor on the four legs.
\<close>

fun dispatch :: "nat \<Rightarrow> motor list \<Rightarrow> world \<Rightarrow> world" where
  "dispatch p [] w = w"
| "dispatch p (m # ms) w =
     dispatch p ms
       (setJointMotorControlArray
          (map (motor_indices m) leg_list)
          (map (\<lambda>leg. component m (frames w p leg)) leg_list) w)"

text \<open>
  \<open>A1.postural_control\<close>. It returns \<open>None\<close> on every path, so the model returns
  the state only. \<open>reference_posture\<close> is a reference to the caller's DataFrame, or
  \<open>None\<close>.
\<close>

definition postural_control ::
  "npfloat \<Rightarrow> npfloat \<Rightarrow> npfloat \<Rightarrow> npfloat \<Rightarrow> nat option \<Rightarrow> world \<Rightarrow> world" where
  "postural_control yaw_angle pitch_angle roll_angle \<Delta>z reference_posture w =
     (let (p, w) = (case reference_posture of
                      None \<Rightarrow> current_posture w
                    | Some r \<Rightarrow> copy r w);
          (completed, w) = leg_loop yaw_angle pitch_angle roll_angle \<Delta>z p leg_list w
      in if completed then dispatch p motor_list w else w)"

text \<open>
  The posture a cycle starts from (the \<open>if reference_posture is None\<close> at the head of
  \<open>postural_control\<close>): the sensed positions, or the contents of the caller's DataFrame.
\<close>

definition starting_posture :: "nat option \<Rightarrow> world \<Rightarrow> posture" where
  "starting_posture reference_posture w =
     (case reference_posture of
        None \<Rightarrow> (\<lambda>leg. (joint_position w (motor_indices H_aa leg),
                         joint_position w (motor_indices H_fe leg),
                         joint_position w (motor_indices Knee leg)))
      | Some r \<Rightarrow> frames w r)"

text \<open>
  \<open>A1.__init__\<close>, as far as the joints go: three position commands that set the hip
  abduction motors to 0, the hip flexion motors to 0.7 and the knees to \<open>-0.7*2\<close>.
\<close>

definition init :: "world \<Rightarrow> world" where
  "init w =
     setJointMotorControlArray (map (motor_indices Knee) leg_list) (replicate 4 (Fin (- 0.7 * 2)))
       (setJointMotorControlArray (map (motor_indices H_fe) leg_list) (replicate 4 (Fin 0.7))
          (setJointMotorControlArray (map (motor_indices H_aa) leg_list) (replicate 4 (Fin 0)) w))"

text \<open>
  The simulation is not part of the model. Two steps stand for what the programs around
  \<open>postural_control\<close> rely on: the joints reaching their targets (\<open>rolling.py\<close>
  waits for that before it reads the initial posture) and the caller building a
  DataFrame of its own to pass as \<open>reference_posture\<close>.
\<close>

definition settle :: "world \<Rightarrow> world" where
  "settle w = w\<lparr>joint_position := joint_target w\<rparr>"

definition new_frame :: "posture \<Rightarrow> world \<Rightarrow> nat \<times> world" where
  "new_frame P w =
     (let p = next_ref w in (p, w\<lparr>frames := (frames w)(p := P), next_ref := Suc p\<rparr>))"

definition blank :: world where
  "blank = \<lparr>joint_position = (\<lambda>i. Fin 0), joint_target = (\<lambda>i. Fin 0), commands = [],
            frames = (\<lambda>p leg. (Fin 0, Fin 0, Fin 0)), next_ref = 0, log = []\<rparr>"

text \<open>The robot standing in its initial posture, all joints on target.\<close>

definition home :: world where
  "home = settle (init blank)"

section \<open>Tolerances\<close>

text \<open>
  "\<open>a\<close> equals \<open>b\<close> within \<open>tol\<close>", as the properties of the kinematics are
  phrased: both values are finite and differ by at most \<open>tol\<close>. A NaN or an infinity
  is within no tolerance of anything.
\<close>

fun close_to :: "real \<Rightarrow> npfloat \<Rightarrow> npfloat \<Rightarrow> bool" where
  "close_to tol (Fin a) (Fin b) = (\<bar>a - b\<bar> \<le> tol)"
| "close_to tol a b = False"

section \<open>Auxiliary facts about the kinematics\<close>

subsection \<open>The two-argument arctangent\<close>

lemma cos_nonneg_interval:
  assumes "0 \<le> cos t" "- (3 * pi / 2) < t" "t < 3 * pi / 2"
  shows "- (pi / 2) \<le> t \<and> t \<le> pi / 2"
proof (rule ccontr)
  assume "\<not> ?thesis"
  then consider "t < - (pi / 2)" | "pi / 2 < t" by linarith
  then show False
  proof cases
    case 1
    then have "0 < cos (t + pi)" using assms by (intro cos_gt_zero_pi) linarith+
    then show False using assms by simp
  next
    case 2
    then have "0 < cos (t - pi)" using assms by (intro cos_gt_zero_pi) linarith+
    then show False using assms by simp
  qed
qed

lemma arctan2_polar:
  assumes "0 < r" "- pi < t" "t \<le> pi"
  shows "arctan2 (r * sin t) (r * cos t) = t"
proof -
  consider "- (pi / 2) < t \<and> t < pi / 2" | "pi / 2 < t" | "t < - (pi / 2)" | "t = pi / 2" | "t = - (pi / 2)"
    by linarith
  then show ?thesis
  proof cases
    case 1
    then have c: "0 < cos t" by (simp add: cos_gt_zero_pi)
    have "r * sin t / (r * cos t) = tan t" using assms c by (simp add: tan_def)
    then show ?thesis using 1 c assms by (simp add: arctan2_def arctan_tan)
  next
    case 2
    then have c: "0 < cos (t - pi)" using assms by (intro cos_gt_zero_pi) linarith+
    then have c': "cos t < 0" by simp
    have s: "0 \<le> sin t" using 2 assms by (intro sin_ge_zero) linarith+
    have "r * sin t / (r * cos t) = tan (t - pi)" using assms c' by (simp add: tan_def)
    moreover have "arctan (tan (t - pi)) = t - pi" using 2 assms by (intro arctan_tan) linarith+
    moreover have "r * cos t < 0" using assms c' by (simp add: mult_pos_neg)
    moreover have "0 \<le> r * sin t" using assms s by simp
    ultimately show ?thesis by (simp add: arctan2_def)
  next
    case 3
    then have c: "0 < cos (t + pi)" using assms by (intro cos_gt_zero_pi) linarith+
    then have c': "cos t < 0" by simp
    have "0 < sin (t + pi)" using 3 assms by (intro sin_gt_zero) linarith+
    then have s: "sin t < 0" by simp
    have "r * sin t / (r * cos t) = tan (t + pi)" using assms c' by (simp add: tan_def)
    moreover have "arctan (tan (t + pi)) = t + pi" using 3 assms by (intro arctan_tan) linarith+
    moreover have "r * cos t < 0" using assms c' by (simp add: mult_pos_neg)
    moreover have "r * sin t < 0" using assms s by (simp add: mult_pos_neg)
    ultimately show ?thesis by (simp add: arctan2_def)
  next
    case 4
    have "arctan2 (r * sin (pi / 2)) (r * cos (pi / 2)) = pi / 2"
      using assms by (simp add: arctan2_def)
    then show ?thesis unfolding 4 .
  next
    case 5
    have "arctan2 (r * sin (- (pi / 2))) (r * cos (- (pi / 2))) = - (pi / 2)"
      using assms by (simp add: arctan2_def)
    then show ?thesis unfolding 5 .
  qed
qed

lemma arctan2_pos_x:
  assumes "0 < x"
  shows "x = sqrt (x\<^sup>2 + y\<^sup>2) * cos (arctan2 y x)"
    and "y = sqrt (x\<^sup>2 + y\<^sup>2) * sin (arctan2 y x)"
    and "- (pi / 2) < arctan2 y x" and "arctan2 y x < pi / 2"
    and "0 \<le> y \<Longrightarrow> 0 \<le> arctan2 y x"
proof -
  have a: "arctan2 y x = arctan (y / x)" using assms by (simp add: arctan2_def)
  have "1 + (y / x)\<^sup>2 = (x\<^sup>2 + y\<^sup>2) / x\<^sup>2" using assms by (simp add: field_simps power2_eq_square)
  then have r: "sqrt (1 + (y / x)\<^sup>2) = sqrt (x\<^sup>2 + y\<^sup>2) / x"
    using assms by (simp add: real_sqrt_divide)
  have p: "0 < sqrt (x\<^sup>2 + y\<^sup>2)" using assms by (simp add: sum_power2_gt_zero_iff)
  show "x = sqrt (x\<^sup>2 + y\<^sup>2) * cos (arctan2 y x)"
    using assms p by (simp add: a cos_arctan r)
  show "y = sqrt (x\<^sup>2 + y\<^sup>2) * sin (arctan2 y x)"
    using assms p by (simp add: a sin_arctan r)
  show "- (pi / 2) < arctan2 y x" unfolding a by (rule arctan_lbound)
  show "arctan2 y x < pi / 2" unfolding a by (rule arctan_ubound)
  show "0 \<le> y \<Longrightarrow> 0 \<le> arctan2 y x" using assms by (simp add: a)
qed

lemma fk_fin:
  "forward_kinematics leg (Fin t0) (Fin t1) (Fin t2) =
     (let h = 200 * cos t1 + 200 * cos (t1 + t2);
          x = - 200 * sin t1 - 200 * sin (t1 + t2)
      in if leg = FR \<or> leg = HR
         then (Fin x, Fin (80 * cos t0 - h * sin t0), Fin (- 80 * sin t0 - h * cos t0))
         else (Fin x, Fin (- 80 * cos t0 - h * sin t0), Fin (80 * sin t0 - h * cos t0)))"
  by (cases leg)
     (simp_all add: forward_kinematics_def thigh_len_def shank_len_def hip_offset_def
        minus_npfloat_def Let_def)

lemma ik_fin:
  assumes h: "h\<^sup>2 = z\<^sup>2 + y\<^sup>2 - 6400" "0 \<le> h"
    and r: "r\<^sup>2 = x\<^sup>2 + h\<^sup>2" "0 < r" "r \<le> 400"
    and c: "c = (x\<^sup>2 + h\<^sup>2 - 80000) / 80000" "- 1 \<le> c" "c \<le> 1"
  shows "inverse_kinematics leg (Fin x) (Fin y) (Fin z) =
     (if leg = FR \<or> leg = HR then Fin (arctan2 \<bar>z\<bar> y - arctan2 h 80)
      else Fin (arctan2 h 80 - arctan2 \<bar>z\<bar> (- y)),
      Fin (arccos (r / 400) - arctan2 x h),
      Fin (arctan2 (- sqrt (1 - c\<^sup>2)) c))"
proof -
  have "sq (Fin z) + sq (Fin y) - Fin (hip_offset\<^sup>2) = Fin (h\<^sup>2)"
    using h(1) by (simp add: sq_def minus_npfloat_def hip_offset_def power2_eq_square)
  then have H: "np_sqrt (sq (Fin z) + sq (Fin y) - Fin (hip_offset\<^sup>2)) = Fin h"
    using h(2) by simp
  have C: "(Fin (- (thigh_len\<^sup>2) - shank_len\<^sup>2) + sq (Fin x) + sq (Fin h))
             / Fin (2 * thigh_len * shank_len) = Fin c"
    unfolding c(1) by (simp add: sq_def thigh_len_def shank_len_def power2_eq_square)
  have "c\<^sup>2 \<le> 1" using c(2,3) by (simp add: abs_square_le_1 abs_le_iff)
  then have "Fin 1 - sq (Fin c) = Fin (1 - c\<^sup>2) \<and> \<not> 1 - c\<^sup>2 < 0"
    by (simp add: sq_def minus_npfloat_def power2_eq_square)
  then have S: "- np_sqrt (Fin 1 - sq (Fin c)) = Fin (- sqrt (1 - c\<^sup>2))"
    by simp
  have "sq (Fin x) + sq (Fin h) = Fin (r\<^sup>2)"
    using r(1) by (simp add: sq_def power2_eq_square)
  then have R: "np_sqrt (sq (Fin x) + sq (Fin h)) = Fin r"
    using r(2) by simp
  have N: "Fin (thigh_len\<^sup>2) + sq (Fin x) + sq (Fin h) - Fin (shank_len\<^sup>2) = Fin (r\<^sup>2)"
    using r(1) by (simp add: sq_def minus_npfloat_def thigh_len_def shank_len_def power2_eq_square)
  have D: "Fin (2 * thigh_len) * Fin r = Fin (400 * r)"
    by (simp add: thigh_len_def)
  have "r\<^sup>2 / (400 * r) = r / 400"
    using r(2) by (simp add: power2_eq_square)
  then have Q: "Fin (r\<^sup>2) / Fin (400 * r) = Fin (r / 400)"
    using r(2) by simp
  have "np_arccos (Fin (r / 400)) = Fin (arccos (r / 400))"
    using r(2,3) by simp
  then have A: "np_arccos ((Fin (thigh_len\<^sup>2) + sq (Fin x) + sq (Fin h) - Fin (shank_len\<^sup>2))
                 / (Fin (2 * thigh_len) * Fin r)) = Fin (arccos (r / 400))"
    unfolding N D Q .
  show ?thesis
    unfolding inverse_kinematics_def Let_def H C S R A
    by (cases leg) (simp_all add: minus_npfloat_def hip_offset_def)
qed

lemma rot_norm:
  fixes s c a b :: real
  assumes "s\<^sup>2 + c\<^sup>2 = 1"
  shows "(a * s + b * c)\<^sup>2 + (a * c - b * s)\<^sup>2 = a\<^sup>2 + b\<^sup>2"
proof -
  have "(a * s + b * c)\<^sup>2 + (a * c - b * s)\<^sup>2 = (a\<^sup>2 + b\<^sup>2) * (s\<^sup>2 + c\<^sup>2)"
    by (simp add: power2_eq_square algebra_simps)
  then show ?thesis using assms by simp
qed

lemma sagittal_roundtrip:
  fixes t1 t2 :: real
  defines "h \<equiv> 200 * cos t1 + 200 * cos (t1 + t2)"
    and "x \<equiv> - 200 * sin t1 - 200 * sin (t1 + t2)"
    and "r \<equiv> 400 * cos (t2 / 2)"
  assumes t2: "- pi < t2" "t2 < 0"
    and t1: "- (3 * pi / 2) < t1 + t2 / 2" "t1 + t2 / 2 < 3 * pi / 2"
    and h0: "0 \<le> 200 * cos t1 + 200 * cos (t1 + t2)"
  shows "r\<^sup>2 = x\<^sup>2 + h\<^sup>2" and "0 < r" and "r \<le> 400"
    and "(x\<^sup>2 + h\<^sup>2 - 80000) / 80000 = cos t2"
    and "arccos (r / 400) - arctan2 x h = t1"
    and "arctan2 (- sqrt (1 - (cos t2)\<^sup>2)) (cos t2) = t2"
proof -
  define p where "p = t1 + t2 / 2"
  have cpos: "0 < cos (t2 / 2)" using t2 by (intro cos_gt_zero_pi) linarith+
  show rpos: "0 < r" using cpos by (simp add: r_def)
  show "r \<le> 400" by (simp add: r_def)
  have e1: "(t1 + t2 + t1) / 2 = p" and e2: "(t1 + t2 - t1) / 2 = t2 / 2"
    by (simp_all add: p_def field_simps)
  have "cos t1 + cos (t1 + t2) = 2 * cos p * cos (t2 / 2)"
    using cos_plus_cos [of "t1 + t2" t1] unfolding e1 e2 by (simp add: add.commute)
  then have hp: "h = r * cos p" by (simp add: h_def r_def algebra_simps)
  have "sin t1 + sin (t1 + t2) = 2 * sin p * cos (t2 / 2)"
    using sin_plus_sin [of "t1 + t2" t1] unfolding e1 e2 by (simp add: add.commute)
  then have xp: "x = - (r * sin p)" by (simp add: x_def r_def algebra_simps)
  have "(r * sin p + 0 * cos p)\<^sup>2 + (r * cos p - 0 * sin p)\<^sup>2 = r\<^sup>2 + 0\<^sup>2"
    by (rule rot_norm) simp
  then show rr: "r\<^sup>2 = x\<^sup>2 + h\<^sup>2"
    by (simp add: hp xp)
  have "cos t2 = 2 * (cos (t2 / 2))\<^sup>2 - 1"
    using cos_double_cos [of "t2 / 2"] by simp
  then show "(x\<^sup>2 + h\<^sup>2 - 80000) / 80000 = cos t2"
    by (simp add: rr [symmetric] r_def power_mult_distrib)
  have "0 \<le> r * cos p" using h0 hp by (simp add: h_def)
  then have "0 \<le> cos p" using rpos by (simp add: zero_le_mult_iff)
  then have pb: "- (pi / 2) \<le> p \<and> p \<le> pi / 2"
    using t1 by (intro cos_nonneg_interval) (simp_all add: p_def)
  have "arctan2 (r * sin (- p)) (r * cos (- p)) = - p"
    using rpos pb pi_gt_zero by (intro arctan2_polar) linarith+
  then have a1: "arctan2 x h = - p" by (simp add: hp xp)
  have "arccos (cos (- (t2 / 2))) = - (t2 / 2)"
    using t2 by (intro arccos_cos) linarith+
  then have a2: "arccos (r / 400) = - (t2 / 2)" by (simp add: r_def)
  show "arccos (r / 400) - arctan2 x h = t1" by (simp add: a1 a2 p_def)
  have "0 < sin (- t2)" using t2 by (intro sin_gt_zero) linarith+
  then have sneg: "sin t2 < 0" by simp
  have "1 - (cos t2)\<^sup>2 = (sin t2)\<^sup>2" by (simp add: sin_squared_eq)
  then have "- sqrt (1 - (cos t2)\<^sup>2) = sin t2" using sneg by simp
  moreover have "arctan2 (1 * sin t2) (1 * cos t2) = t2"
    using t2 by (intro arctan2_polar) linarith+
  ultimately show "arctan2 (- sqrt (1 - (cos t2)\<^sup>2)) (cos t2) = t2" by simp
qed

lemma frontal_roundtrip:
  fixes t0 h :: real
  assumes t0: "- (pi / 2) \<le> t0" "t0 \<le> pi / 2" and h0: "0 \<le> h"
  shows "(- 80 * sin t0 - h * cos t0)\<^sup>2 + (80 * cos t0 - h * sin t0)\<^sup>2 - 6400 = h\<^sup>2"
    and "(80 * sin t0 - h * cos t0)\<^sup>2 + (- 80 * cos t0 - h * sin t0)\<^sup>2 - 6400 = h\<^sup>2"
    and "- 80 * sin t0 - h * cos t0 \<le> 0 \<Longrightarrow>
           arctan2 \<bar>- 80 * sin t0 - h * cos t0\<bar> (80 * cos t0 - h * sin t0) - arctan2 h 80 = t0"
    and "80 * sin t0 - h * cos t0 \<le> 0 \<Longrightarrow>
           arctan2 h 80 - arctan2 \<bar>80 * sin t0 - h * cos t0\<bar> (- (- 80 * cos t0 - h * sin t0)) = t0"
proof -
  define q where "q = arctan2 h 80"
  define d where "d = sqrt (80\<^sup>2 + h\<^sup>2)"
  have dpos: "0 < d" by (simp add: d_def add_pos_nonneg)
  have o: "80 = d * cos q" and hq: "h = d * sin q"
    using arctan2_pos_x(1,2) [of 80 h] by (simp_all add: q_def d_def)
  have qb: "0 \<le> q" "q < pi / 2"
    using arctan2_pos_x(4,5) [of 80 h] h0 by (simp_all add: q_def)
  have ss: "sin t0 * sin t0 = 1 - cos t0 * cos t0"
    using sin_squared_eq [of t0] by (simp add: power2_eq_square)
  have n1: "(80 * sin t0 + h * cos t0)\<^sup>2 + (80 * cos t0 - h * sin t0)\<^sup>2 = 80\<^sup>2 + h\<^sup>2"
    by (rule rot_norm) simp
  have "- 80 * sin t0 - h * cos t0 = - (80 * sin t0 + h * cos t0)" by simp
  then have "(- 80 * sin t0 - h * cos t0)\<^sup>2 = (80 * sin t0 + h * cos t0)\<^sup>2"
    by (simp only: power2_minus)
  then show "(- 80 * sin t0 - h * cos t0)\<^sup>2 + (80 * cos t0 - h * sin t0)\<^sup>2 - 6400 = h\<^sup>2"
    using n1 by simp
  have "(- 80 * cos t0 - h * sin t0)\<^sup>2 = (80 * cos t0 + h * sin t0)\<^sup>2"
    using power2_minus [of "80 * cos t0 + h * sin t0"] by simp
  moreover have "(h * cos t0 - 80 * sin t0)\<^sup>2 + (h * sin t0 + 80 * cos t0)\<^sup>2 = h\<^sup>2 + 80\<^sup>2"
    using rot_norm [of "- sin t0" "cos t0" "80" h] by (simp add: algebra_simps power2_eq_square)
  moreover have "(80 * sin t0 - h * cos t0)\<^sup>2 = (h * cos t0 - 80 * sin t0)\<^sup>2"
    by (rule power2_commute)
  ultimately show "(80 * sin t0 - h * cos t0)\<^sup>2 + (- 80 * cos t0 - h * sin t0)\<^sup>2 - 6400 = h\<^sup>2"
    by (simp add: add.commute)
  have o': "d * cos q = 80" and hq': "d * sin q = h"
    using o hq by simp_all
  have sp: "d * sin (q + t0) = 80 * sin t0 + h * cos t0"
  proof -
    have "d * sin (q + t0) = (d * cos q) * sin t0 + (d * sin q) * cos t0"
      by (simp add: sin_add algebra_simps)
    then show ?thesis unfolding o' hq' .
  qed
  have cp: "d * cos (q + t0) = 80 * cos t0 - h * sin t0"
  proof -
    have "d * cos (q + t0) = (d * cos q) * cos t0 - (d * sin q) * sin t0"
      by (simp add: cos_add algebra_simps)
    then show ?thesis unfolding o' hq' .
  qed
  have sm: "d * sin (q - t0) = h * cos t0 - 80 * sin t0"
  proof -
    have "d * sin (q - t0) = (d * sin q) * cos t0 - (d * cos q) * sin t0"
      by (simp add: sin_diff algebra_simps)
    then show ?thesis unfolding o' hq' .
  qed
  have cm: "d * cos (q - t0) = 80 * cos t0 + h * sin t0"
  proof -
    have "d * cos (q - t0) = (d * cos q) * cos t0 + (d * sin q) * sin t0"
      by (simp add: cos_diff algebra_simps)
    then show ?thesis unfolding o' hq' .
  qed
  {
    assume z: "- 80 * sin t0 - h * cos t0 \<le> 0"
    then have mz: "\<bar>- 80 * sin t0 - h * cos t0\<bar> = d * sin (q + t0)"
      unfolding sp by simp
    have "arctan2 (d * sin (q + t0)) (d * cos (q + t0)) = q + t0"
      using dpos qb t0 pi_gt_zero by (intro arctan2_polar) linarith+
    then show "arctan2 \<bar>- 80 * sin t0 - h * cos t0\<bar> (80 * cos t0 - h * sin t0) - arctan2 h 80 = t0"
      unfolding mz cp [symmetric] by (simp add: q_def)
  }
  {
    assume z: "80 * sin t0 - h * cos t0 \<le> 0"
    then have mz: "\<bar>80 * sin t0 - h * cos t0\<bar> = d * sin (q - t0)"
      unfolding sm by simp
    have y: "- (- 80 * cos t0 - h * sin t0) = d * cos (q - t0)"
      unfolding cm by simp
    have "arctan2 (d * sin (q - t0)) (d * cos (q - t0)) = q - t0"
      using dpos qb t0 pi_gt_zero by (intro arctan2_polar) linarith+
    then show "arctan2 h 80 - arctan2 \<bar>80 * sin t0 - h * cos t0\<bar> (- (- 80 * cos t0 - h * sin t0)) = t0"
      unfolding mz y by (simp add: q_def)
  }
qed

lemma ik_fk_roundtrip:
  assumes t0: "- (pi / 2) \<le> t0" "t0 \<le> pi / 2"
    and t2: "- pi < t2" "t2 < 0"
    and t1: "- (3 * pi / 2) < t1 + t2 / 2" "t1 + t2 / 2 < 3 * pi / 2"
    and h0: "0 \<le> thigh_len * cos t1 + shank_len * cos (t1 + t2)"
    and fk: "forward_kinematics leg (Fin t0) (Fin t1) (Fin t2) = (x, y, z)"
    and z: "\<not> flt (Fin 0) z"
  shows "inverse_kinematics leg x y z = (Fin t0, Fin t1, Fin t2)"
proof -
  define h where "h = 200 * cos t1 + 200 * cos (t1 + t2)"
  define xr where "xr = - 200 * sin t1 - 200 * sin (t1 + t2)"
  define r where "r = 400 * cos (t2 / 2)"
  have h0': "0 \<le> 200 * cos t1 + 200 * cos (t1 + t2)"
    using h0 by (simp add: thigh_len_def shank_len_def)
  note sag = sagittal_roundtrip [OF t2 t1 h0', folded h_def xr_def r_def]
  have hn: "0 \<le> h" using h0' by (simp add: h_def)
  note fro = frontal_roundtrip [OF t0 hn]
  have c: "- 1 \<le> cos t2" "cos t2 \<le> 1" by simp_all
  show ?thesis
  proof (cases "leg = FR \<or> leg = HR")
    case True
    define yr where "yr = 80 * cos t0 - h * sin t0"
    define zr where "zr = - 80 * sin t0 - h * cos t0"
    have xyz: "x = Fin xr" "y = Fin yr" "z = Fin zr"
      using fk True unfolding fk_fin Let_def h_def [symmetric] xr_def [symmetric]
      by (simp_all add: yr_def zr_def)
    have zle: "zr \<le> 0" using z by (simp add: xyz not_less)
    have hh: "h\<^sup>2 = zr\<^sup>2 + yr\<^sup>2 - 6400"
      using fro(1) by (simp add: yr_def zr_def)
    have a0: "arctan2 \<bar>zr\<bar> yr - arctan2 h 80 = t0"
      using fro(3) zle unfolding yr_def zr_def by simp
    show ?thesis
      unfolding xyz
      using True
      by (simp add: ik_fin [OF hh hn sag(1,2,3) sag(4) [symmetric] c] a0 sag(5,6))
  next
    case False
    define yr where "yr = - 80 * cos t0 - h * sin t0"
    define zr where "zr = 80 * sin t0 - h * cos t0"
    have xyz: "x = Fin xr" "y = Fin yr" "z = Fin zr"
      using fk False unfolding fk_fin Let_def h_def [symmetric] xr_def [symmetric]
      by (simp_all add: yr_def zr_def)
    have zle: "zr \<le> 0" using z by (simp add: xyz not_less)
    have hh: "h\<^sup>2 = zr\<^sup>2 + yr\<^sup>2 - 6400"
      using fro(2) by (simp add: yr_def zr_def)
    have a0: "arctan2 h 80 - arctan2 \<bar>zr\<bar> (- yr) = t0"
      using fro(4) zle unfolding yr_def zr_def by simp
    show ?thesis
      unfolding xyz
      using False
      by (simp add: ik_fin [OF hh hn sag(1,2,3) sag(4) [symmetric] c] a0 sag(5,6))
  qed
qed

subsection \<open>The round trip inside the motor ranges\<close>

lemma pi_ge_3: "3 \<le> pi"
  using sin_x_le_x [of "pi / 6"] by (simp add: sin_30)

lemma ik_fk_roundtrip_ranges:
  assumes t0: "- 0.803 \<le> t0" "t0 \<le> 0.803"
    and t1: "- 1.047 \<le> t1" "t1 \<le> 4.189"
    and t2: "- 2.697 \<le> t2" "t2 \<le> - 0.916"
    and h0: "0 \<le> thigh_len * cos t1 + shank_len * cos (t1 + t2)"
    and fk: "forward_kinematics leg (Fin t0) (Fin t1) (Fin t2) = (x, y, z)"
    and z: "\<not> flt (Fin 0) z"
  shows "inverse_kinematics leg x y z = (Fin t0, Fin t1, Fin t2)"
proof -
  have p: "3 \<le> pi" by (rule pi_ge_3)
  have q: "- 1 < t0" "t0 < 1" "- 2 < t1" "t1 < 9 / 2" "- 3 < t2" "t2 < 0"
    using t0 t1 t2 by simp_all
  show ?thesis
    using q p by (intro ik_fk_roundtrip [OF _ _ _ _ _ _ h0 fk z]) linarith+
qed

lemma stance_reach: "0 \<le> thigh_len * cos 0.7 + shank_len * cos (0.7 + - 1.4)"
proof -
  have "(0.7::real) + - 1.4 = - 0.7" by simp
  moreover have "0 < cos (0.7::real)" using pi_ge_3 by (intro cos_gt_zero_pi) linarith+
  ultimately show ?thesis by (simp add: thigh_len_def shank_len_def)
qed

lemma stance_reach_margin: "1 \<le> thigh_len * cos 0.7 + shank_len * cos (0.7 + - 1.4)"
proof -
  have e: "(0.7::real) + - 1.4 = - 0.7" by simp
  have "cos (pi / 4) \<le> cos (0.7::real)"
    using pi_ge_3 pi_less_4 by (intro cos_monotone_0_pi_le) simp_all
  then have c: "sqrt 2 / 2 \<le> cos (0.7::real)" by (simp add: cos_45)
  have s: "1 \<le> sqrt 2" by simp
  have "1 / 2 \<le> cos (0.7::real)" using c s by linarith
  then show ?thesis unfolding e by (simp add: thigh_len_def shank_len_def)
qed

subsection \<open>A raised thigh\<close>

lemma fk_fr_raised: "forward_kinematics FR (Fin 0) (Fin pi) (Fin (- (pi / 2))) = (Fin (- 200), Fin 80, Fin 200)"
proof -
  have "pi + - (pi / 2) = pi / 2" by simp
  then show ?thesis by (simp add: fk_fin Let_def)
qed

lemma ik_fr_raised:
  "\<exists>a b c. inverse_kinematics FR (Fin (- 200)) (Fin 80) (Fin 200) = (Fin a, Fin b, Fin c) \<and> b \<le> 3 * pi / 4"
proof -
  define r :: real where "r = sqrt 80000"
  have r2: "r\<^sup>2 = (- 200)\<^sup>2 + 200\<^sup>2" by (simp add: r_def)
  have rp: "0 < r" by (simp add: r_def)
  have "sqrt 80000 \<le> sqrt (400\<^sup>2)" by (subst real_sqrt_le_iff) simp
  then have r4: "r \<le> 400" by (simp add: r_def)
  have ik: "inverse_kinematics FR (Fin (- 200)) (Fin 80) (Fin 200) =
     (Fin (arctan2 \<bar>200\<bar> 80 - arctan2 200 80),
      Fin (arccos (r / 400) - arctan2 (- 200) 200),
      Fin (arctan2 (- sqrt (1 - 0\<^sup>2)) 0))"
    using ik_fin [of 200 200 80 r "- 200" 0 FR] r2 rp r4 by simp
  have "arccos (r / 400) \<le> pi / 2" using rp r4 by (intro arccos_le_pi2) simp_all
  moreover have "arctan2 (- 200) 200 = - (pi / 4)"
    using arctan_minus [of 1] by (simp add: arctan2_def arctan_one)
  ultimately have "arccos (r / 400) - arctan2 (- 200) 200 \<le> 3 * pi / 4" by simp
  then show ?thesis unfolding ik by blast
qed

subsection \<open>The loop body without any adjustment\<close>

lemma candidate_zero:
  "candidate (Fin 0) (Fin 0) (Fin 0) (Fin 0) leg (Fin t0, Fin t1, Fin t2) =
     (case forward_kinematics leg (Fin t0) (Fin t1) (Fin t2) of (x, y, z) \<Rightarrow>
        inverse_kinematics leg x y z)"
  by (cases leg)
     (simp_all add: candidate_def fk_fin Let_def roll_def pitch_def yaw_def minus_npfloat_def
        body_len_def body_width_def)

subsection \<open>NaN propagation\<close>

lemma nan_absorb [simp]:
  "a + NaN = NaN" "NaN + a = NaN" "a - NaN = NaN" "NaN - a = NaN"
  "a * NaN = NaN" "NaN * a = NaN" "a / NaN = NaN" "NaN / a = NaN"
  "sq NaN = NaN" "np_arctan2 a NaN = NaN" "np_arctan2 NaN a = NaN"
  by (cases a; simp add: minus_npfloat_def sq_def)+

section \<open>Auxiliary facts about the control cycle\<close>

lemma leg_loop_fields:
  "commands (snd (leg_loop a b g dz p legs w)) = commands w"
  "joint_target (snd (leg_loop a b g dz p legs w)) = joint_target w"
  "joint_position (snd (leg_loop a b g dz p legs w)) = joint_position w"
  "next_ref (snd (leg_loop a b g dz p legs w)) = next_ref w"
  by (induction legs arbitrary: w; simp add: Let_def)+


lemma leg_loop_completed:
  "distinct legs \<Longrightarrow>
   fst (leg_loop a b g dz p legs w) = (\<forall>l\<in>set legs. limits_ok (candidate a b g dz l (frames w p l)))"
proof (induction legs arbitrary: w)
  case Nil
  then show ?case by simp
next
  case (Cons l legs)
  let ?c = "candidate a b g dz l (frames w p l)"
  let ?w = "w\<lparr>frames := (frames w)(p := (frames w p)(l := ?c))\<rparr>"
  have same: "\<forall>k\<in>set legs. frames ?w p k = frames w p k"
    using Cons.prems by auto
  show ?case
  proof (cases "limits_ok ?c")
    case True
    have "fst (leg_loop a b g dz p (l # legs) w) = fst (leg_loop a b g dz p legs ?w)"
      using True by (simp add: Let_def)
    also have "\<dots> = (\<forall>k\<in>set legs. limits_ok (candidate a b g dz k (frames ?w p k)))"
      using Cons.prems by (intro Cons.IH) simp
    also have "\<dots> = (\<forall>k\<in>set legs. limits_ok (candidate a b g dz k (frames w p k)))"
      using same by (intro ball_cong) simp_all
    finally show ?thesis using True by simp
  next
    case False
    then show ?thesis by (simp add: Let_def)
  qed
qed

lemma leg_loop_log:
  "log (snd (leg_loop a b g dz p legs w)) =
     (if fst (leg_loop a b g dz p legs w) then log w else log w @ [''Motor limit reached''])"
  by (induction legs arbitrary: w) (simp_all add: Let_def)

lemma leg_loop_frame:
  "distinct legs \<Longrightarrow> fst (leg_loop a b g dz p legs w) \<Longrightarrow>
   frames (snd (leg_loop a b g dz p legs w)) p l =
     (if l \<in> set legs then candidate a b g dz l (frames w p l) else frames w p l)"
proof (induction legs arbitrary: w)
  case Nil
  then show ?case by simp
next
  case (Cons k legs)
  let ?c = "candidate a b g dz k (frames w p k)"
  let ?w = "w\<lparr>frames := (frames w)(p := (frames w p)(k := ?c))\<rparr>"
  have ok: "limits_ok ?c" using Cons.prems(2) by (auto simp add: Let_def split: if_splits)
  then have step: "leg_loop a b g dz p (k # legs) w = leg_loop a b g dz p legs ?w"
    by (simp add: Let_def)
  have "frames (snd (leg_loop a b g dz p legs ?w)) p l =
          (if l \<in> set legs then candidate a b g dz l (frames ?w p l) else frames ?w p l)"
    using Cons.prems unfolding step by (intro Cons.IH) simp_all
  then show ?case unfolding step using Cons.prems(1) by auto
qed

lemma start_frame:
  assumes "(case reference_posture of None \<Rightarrow> current_posture w | Some r \<Rightarrow> copy r w) = (p, w1)"
  shows "p = next_ref w" and "frames w1 p = starting_posture reference_posture w"
    and "\<And>q. q \<noteq> p \<Longrightarrow> frames w1 q = frames w q"
    and "commands w1 = commands w" and "joint_target w1 = joint_target w"
    and "joint_position w1 = joint_position w" and "log w1 = log w"
  using assms
  by (auto simp add: current_posture_def copy_def starting_posture_def Let_def split: option.splits)

lemma dispatch_fields:
  "log (dispatch p ms w) = log w" "frames (dispatch p ms w) = frames w"
  "joint_position (dispatch p ms w) = joint_position w"
  by (induction ms arbitrary: w; simp add: setJointMotorControlArray_def)+

lemma dispatch_commands:
  "commands (dispatch p ms w) =
     commands w @ map (\<lambda>m. (map (motor_indices m) leg_list,
                             map (\<lambda>leg. component m (frames w p leg)) leg_list)) ms"
proof (induction ms arbitrary: w)
  case Nil
  then show ?case by simp
next
  case (Cons m ms)
  show ?case
    by (simp add: Cons.IH) (simp add: setJointMotorControlArray_def)
qed

lemma leg_list_all: "distinct leg_list" "set leg_list = UNIV"
proof -
  show "distinct leg_list" by (simp add: leg_list_def)
  have "l \<in> set leg_list" for l by (cases l) (simp_all add: leg_list_def)
  then show "set leg_list = UNIV" by blast
qed

lemma postural_control_cases:
  obtains p w1 ok w2 where
    "(case reference_posture of None \<Rightarrow> current_posture w | Some r \<Rightarrow> copy r w) = (p, w1)"
    "leg_loop a b g dz p leg_list w1 = (ok, w2)"
    "postural_control a b g dz reference_posture w = (if ok then dispatch p motor_list w2 else w2)"
proof -
  obtain p w1 where st: "(case reference_posture of None \<Rightarrow> current_posture w | Some r \<Rightarrow> copy r w) = (p, w1)"
    by (cases "case reference_posture of None \<Rightarrow> current_posture w | Some r \<Rightarrow> copy r w") auto
  obtain ok w2 where lp: "leg_loop a b g dz p leg_list w1 = (ok, w2)"
    by (cases "leg_loop a b g dz p leg_list w1") auto
  have "postural_control a b g dz reference_posture w = (if ok then dispatch p motor_list w2 else w2)"
    by (simp add: postural_control_def st lp)
  with st lp show ?thesis by (rule that)
qed

lemma postural_control_completed:
  assumes "(case reference_posture of None \<Rightarrow> current_posture w | Some r \<Rightarrow> copy r w) = (p, w1)"
    and "leg_loop a b g dz p leg_list w1 = (ok, w2)"
  shows "ok = (\<forall>l. limits_ok (candidate a b g dz l (starting_posture reference_posture w l)))"
  using leg_loop_completed [OF leg_list_all(1), of a b g dz p w1] assms(2)
  by (simp add: leg_list_all(2) start_frame(2) [OF assms(1)])

lemma postural_control_abort:
  assumes "\<not> limits_ok (candidate a b g dz leg (starting_posture reference_posture w leg))"
  shows "commands (postural_control a b g dz reference_posture w) = commands w"
    and "joint_target (postural_control a b g dz reference_posture w) = joint_target w"
    and "joint_position (postural_control a b g dz reference_posture w) = joint_position w"
    and "log (postural_control a b g dz reference_posture w) = log w @ [''Motor limit reached'']"
proof -
  obtain p w1 ok w2 where st: "(case reference_posture of None \<Rightarrow> current_posture w | Some r \<Rightarrow> copy r w) = (p, w1)"
    and lp: "leg_loop a b g dz p leg_list w1 = (ok, w2)"
    and pc: "postural_control a b g dz reference_posture w = (if ok then dispatch p motor_list w2 else w2)"
    by (rule postural_control_cases)
  have "\<not> ok" using postural_control_completed [OF st lp] assms by blast
  then have pc': "postural_control a b g dz reference_posture w = w2" using pc by simp
  have w2: "w2 = snd (leg_loop a b g dz p leg_list w1)" and nok: "\<not> fst (leg_loop a b g dz p leg_list w1)"
    using lp \<open>\<not> ok\<close> by simp_all
  show "commands (postural_control a b g dz reference_posture w) = commands w"
    unfolding pc' w2 by (simp add: leg_loop_fields start_frame [OF st])
  show "joint_target (postural_control a b g dz reference_posture w) = joint_target w"
    unfolding pc' w2 by (simp add: leg_loop_fields start_frame [OF st])
  show "joint_position (postural_control a b g dz reference_posture w) = joint_position w"
    unfolding pc' w2 by (simp add: leg_loop_fields start_frame [OF st])
  show "log (postural_control a b g dz reference_posture w) = log w @ [''Motor limit reached'']"
    unfolding pc' w2 using nok by (simp add: leg_loop_log start_frame [OF st])
qed

lemma postural_control_success:
  assumes "\<forall>l. limits_ok (candidate a b g dz l (starting_posture reference_posture w l))"
  shows "commands (postural_control a b g dz reference_posture w) =
           commands w @ map (\<lambda>m. (map (motor_indices m) leg_list,
                                   map (\<lambda>l. component m (candidate a b g dz l (starting_posture reference_posture w l))) leg_list))
                            motor_list"
    and "log (postural_control a b g dz reference_posture w) = log w"
proof -
  obtain p w1 ok w2 where st: "(case reference_posture of None \<Rightarrow> current_posture w | Some r \<Rightarrow> copy r w) = (p, w1)"
    and lp: "leg_loop a b g dz p leg_list w1 = (ok, w2)"
    and pc: "postural_control a b g dz reference_posture w = (if ok then dispatch p motor_list w2 else w2)"
    by (rule postural_control_cases)
  have ok using postural_control_completed [OF st lp] assms by blast
  then have pc': "postural_control a b g dz reference_posture w = dispatch p motor_list w2" using pc by simp
  have w2: "w2 = snd (leg_loop a b g dz p leg_list w1)" and fok: "fst (leg_loop a b g dz p leg_list w1)"
    using lp \<open>ok\<close> by simp_all
  have fr: "frames w2 p l = candidate a b g dz l (starting_posture reference_posture w l)" for l
    unfolding w2 using leg_loop_frame [OF leg_list_all(1) fok, of l]
    by (simp add: leg_list_all(2) start_frame(2) [OF st])
  have cw: "commands w2 = commands w" "log w2 = log w"
    unfolding w2 using fok by (simp_all add: leg_loop_fields leg_loop_log start_frame [OF st])
  show "commands (postural_control a b g dz reference_posture w) =
           commands w @ map (\<lambda>m. (map (motor_indices m) leg_list,
                                   map (\<lambda>l. component m (candidate a b g dz l (starting_posture reference_posture w l))) leg_list))
                            motor_list"
    unfolding pc' dispatch_commands by (simp add: fr cw)
  show "log (postural_control a b g dz reference_posture w) = log w"
    unfolding pc' by (simp add: dispatch_fields cw)
qed


subsection \<open>Candidates of some concrete postures\<close>

lemma candidate_height:
  "candidate (Fin 0) (Fin 0) (Fin 0) (Fin dz) leg (Fin t0, Fin t1, Fin t2) =
     (case forward_kinematics leg (Fin t0) (Fin t1) (Fin t2) of (x, y, z) \<Rightarrow>
        inverse_kinematics leg x y (z - Fin dz))"
  by (cases leg)
     (simp_all add: candidate_def fk_fin Let_def roll_def pitch_def yaw_def minus_npfloat_def
        body_len_def body_width_def)

lemma home_posture: "starting_posture None home = (\<lambda>leg. (Fin 0, Fin 0.7, Fin (- 1.4)))"
proof
  fix leg
  show "starting_posture None home leg = (Fin 0, Fin 0.7, Fin (- 1.4))"
    by (cases leg)
       (simp_all add: starting_posture_def home_def settle_def init_def blank_def
          setJointMotorControlArray_def leg_list_def numeral_eq_Suc)
qed

lemma fk_stance:
  "forward_kinematics leg (Fin t0) (Fin 0.7) (Fin (- 1.4)) =
     (if leg = FR \<or> leg = HR
      then (Fin 0, Fin (80 * cos t0 - 400 * cos 0.7 * sin t0), Fin (- 80 * sin t0 - 400 * cos 0.7 * cos t0))
      else (Fin 0, Fin (- 80 * cos t0 - 400 * cos 0.7 * sin t0), Fin (80 * sin t0 - 400 * cos 0.7 * cos t0)))"
proof -
  have "(0.7::real) + - 1.4 = - 0.7" by simp
  then have "cos ((0.7::real) + - 1.4) = cos 0.7" "sin ((0.7::real) + - 1.4) = - sin 0.7"
    by simp_all
  then show ?thesis by (simp add: fk_fin Let_def)
qed

lemma cos_stance: "0 < cos (0.7::real)" "cos (0.7::real) \<le> 1"
proof -
  show "0 < cos (0.7::real)" using pi_ge_3 by (intro cos_gt_zero_pi) linarith+
  show "cos (0.7::real) \<le> 1" by simp
qed

lemma candidate_stance:
  "candidate (Fin 0) (Fin 0) (Fin 0) (Fin 0) leg (Fin 0, Fin 0.7, Fin (- 1.4)) = (Fin 0, Fin 0.7, Fin (- 1.4))"
proof -
  obtain x y z where fk: "forward_kinematics leg (Fin 0) (Fin 0.7) (Fin (- 1.4)) = (x, y, z)"
    by (cases "forward_kinematics leg (Fin 0) (Fin 0.7) (Fin (- 1.4))") auto
  have "z = Fin (- (400 * cos 0.7))" using fk unfolding fk_stance by (auto split: if_splits)
  then have z: "\<not> flt (Fin 0) z" using cos_stance by (simp add: not_less)
  have "inverse_kinematics leg x y z = (Fin 0, Fin 0.7, Fin (- 1.4))"
    by (rule ik_fk_roundtrip_ranges [OF _ _ _ _ _ _ stance_reach fk z]) simp_all
  then show ?thesis using fk by (simp add: candidate_zero)
qed

lemma candidate_right_abducted:
  assumes "0 \<le> t0" "t0 \<le> pi / 2" "leg = FR \<or> leg = HR"
  shows "candidate (Fin 0) (Fin 0) (Fin 0) (Fin 0) leg (Fin t0, Fin 0.7, Fin (- 1.4)) = (Fin t0, Fin 0.7, Fin (- 1.4))"
proof -
  obtain x y z where fk: "forward_kinematics leg (Fin t0) (Fin 0.7) (Fin (- 1.4)) = (x, y, z)"
    by (cases "forward_kinematics leg (Fin t0) (Fin 0.7) (Fin (- 1.4))") auto
  have zz: "z = Fin (- 80 * sin t0 - 400 * cos 0.7 * cos t0)"
    using fk assms(3) unfolding fk_stance by auto
  have c0: "0 \<le> cos t0" using assms(1,2) by (intro cos_ge_zero) linarith+
  have s0: "0 \<le> sin t0" using assms(1,2) pi_ge_3 by (intro sin_ge_zero) linarith+
  have "0 \<le> 400 * cos 0.7 * cos t0"
    using cos_stance(1) c0 by simp
  with s0 have "- 80 * sin t0 - 400 * cos 0.7 * cos t0 \<le> 0"
    by linarith
  then have z: "\<not> flt (Fin 0) z" unfolding zz by (simp add: not_less)
  have p: "3 \<le> pi" by (rule pi_ge_3)
  have e: "(0.7::real) + - 1.4 / 2 = 0" by simp
  have b1: "- (pi / 2) \<le> t0" using assms(1) p by linarith
  have b2: "- pi < (- 1.4::real)" using p by simp
  have b3: "(- 1.4::real) < 0" by simp
  have b4: "- (3 * pi / 2) < (0.7::real) + - 1.4 / 2" unfolding e using p by simp
  have b5: "(0.7::real) + - 1.4 / 2 < 3 * pi / 2" unfolding e using p by simp
  have "inverse_kinematics leg x y z = (Fin t0, Fin 0.7, Fin (- 1.4))"
    by (rule ik_fk_roundtrip [OF b1 assms(2) b2 b3 b4 b5 stance_reach fk z])
  then show ?thesis using fk by (simp add: candidate_zero)
qed

lemma candidate_straight:
  "component Knee (candidate (Fin 0) (Fin 0) (Fin 0) (Fin 0) leg (Fin 0, Fin 0, Fin 0)) = Fin 0"
proof -
  have ik: "inverse_kinematics leg (Fin 0) (Fin y) (Fin (- 400)) =
     (if leg = FR \<or> leg = HR then Fin (arctan2 \<bar>- 400\<bar> y - arctan2 400 80)
      else Fin (arctan2 400 80 - arctan2 \<bar>- 400\<bar> (- y)),
      Fin (arccos (400 / 400) - arctan2 0 400),
      Fin (arctan2 (- sqrt (1 - 1\<^sup>2)) 1))" if "y\<^sup>2 = 6400" for y
    using that by (intro ik_fin) simp_all
  have "arctan2 (- sqrt (1 - 1\<^sup>2)) 1 = 0" by (simp add: arctan2_def)
  then show ?thesis
    by (cases "leg = FR \<or> leg = HR")
       (simp_all add: candidate_zero fk_fin Let_def ik [of 80, simplified] ik [of "- 80", simplified])
qed

lemma ik_overstretched:
  assumes "6400 \<le> z\<^sup>2 + y\<^sup>2" "160000 < x\<^sup>2 + z\<^sup>2 + y\<^sup>2 - 6400"
  shows "component Knee (inverse_kinematics leg (Fin x) (Fin y) (Fin z)) = NaN"
proof -
  define s where "s = z\<^sup>2 + y\<^sup>2 - 6400"
  define c where "c = (x\<^sup>2 + s - 80000) / 80000"
  have s0: "0 \<le> s" using assms(1) by (simp add: s_def)
  have "sq (Fin z) + sq (Fin y) - Fin (hip_offset\<^sup>2) = Fin s"
    by (simp add: sq_def minus_npfloat_def hip_offset_def power2_eq_square s_def)
  then have H: "np_sqrt (sq (Fin z) + sq (Fin y) - Fin (hip_offset\<^sup>2)) = Fin (sqrt s)"
    using s0 by simp
  have "sq (Fin (sqrt s)) = Fin s" using s0 by (simp add: sq_def)
  then have C: "(Fin (- (thigh_len\<^sup>2) - shank_len\<^sup>2) + sq (Fin x) + sq (Fin (sqrt s)))
             / Fin (2 * thigh_len * shank_len) = Fin c"
    by (simp add: sq_def thigh_len_def shank_len_def power2_eq_square c_def)
  have "1 < c" using assms(2) by (simp add: c_def s_def)
  then have "1 * 1 < c * c" by (intro mult_strict_mono) simp_all
  then have S: "- np_sqrt (Fin 1 - sq (Fin c)) = NaN"
    by (simp add: sq_def minus_npfloat_def)
  show ?thesis
    unfolding inverse_kinematics_def Let_def H C S by simp
qed

lemma candidate_lowered:
  "component Knee (candidate (Fin 0) (Fin 0) (Fin 0) (Fin 1000) leg (Fin 0, Fin 0.7, Fin (- 1.4))) = NaN"
proof -
  define v :: real where "v = - (400 * cos 0.7) - 1000"
  have v: "v \<le> - 1000" using cos_stance by (simp add: v_def)
  then have "1000 * 1000 \<le> v * v"
    using mult_mono [of 1000 "- v" 1000 "- v"] by simp
  then have vv: "1000000 \<le> v\<^sup>2" by (simp add: power2_eq_square)
  have k: "component Knee (inverse_kinematics leg (Fin 0) (Fin y) (Fin v)) = NaN" if "y\<^sup>2 = 6400" for y
    using vv that by (intro ik_overstretched) simp_all
  have fk: "forward_kinematics leg (Fin 0) (Fin 0.7) (Fin (- 1.4)) =
     (if leg = FR \<or> leg = HR then (Fin 0, Fin 80, Fin (- (400 * cos 0.7)))
      else (Fin 0, Fin (- 80), Fin (- (400 * cos 0.7))))"
    unfolding fk_stance by simp
  show ?thesis
    unfolding candidate_height fk
    using k [of 80] k [of "- 80"] by (simp add: minus_npfloat_def v_def)
qed



lemma limits_ok_not_nan: "limits_ok \<theta> \<Longrightarrow> component m \<theta> \<noteq> NaN"
  by (cases m; cases \<theta>) (auto simp add: limits_ok_def)

lemma home_commands_zero:
  "commands (postural_control (Fin 0) (Fin 0) (Fin 0) (Fin 0) None home) =
     commands home @ [([1, 6, 11, 16], [Fin 0, Fin 0, Fin 0, Fin 0]),
                      ([3, 8, 13, 18], [Fin 0.7, Fin 0.7, Fin 0.7, Fin 0.7]),
                      ([4, 9, 14, 19], [Fin (- 1.4), Fin (- 1.4), Fin (- 1.4), Fin (- 1.4)])]"
proof -
  have c: "candidate (Fin 0) (Fin 0) (Fin 0) (Fin 0) l (starting_posture None home l) = (Fin 0, Fin 0.7, Fin (- 1.4))" for l
    unfolding home_posture by (rule candidate_stance)
  have "limits_ok (Fin 0, Fin 0.7, Fin (- 1.4))" by (simp add: limits_ok_def)
  then have ok: "\<forall>l. limits_ok (candidate (Fin 0) (Fin 0) (Fin 0) (Fin 0) l (starting_posture None home l))"
    unfolding c by simp
  show ?thesis
    unfolding postural_control_success(1) [OF ok] c
    by (simp add: leg_list_def motor_list_def)
qed




lemma knee_zero_rejected: "component Knee \<theta> = Fin 0 \<Longrightarrow> \<not> limits_ok \<theta>"
  by (simp add: limits_ok_def)

section \<open>Lateral symmetry of the forward kinematics\<close>

text \<open>
  Claim C4, as stated: for every angle triple, the toe points of front-right and
  front-left for the same triple are mirror images (equal x, equal z, negated y). This
  fails: at \<open>(\<pi>/6, 0, -\<pi>/2)\<close>, a triple inside all three motor ranges, the two z
  coordinates differ by the hip offset and the y coordinates are not opposite.
\<close>

theorem fk_lateral_mirror_counterexample:
  "\<not> (let (xr, yr, zr) = forward_kinematics FR (Fin (pi / 6)) (Fin 0) (Fin (- (pi / 2)));
           (xl, yl, zl) = forward_kinematics FL (Fin (pi / 6)) (Fin 0) (Fin (- (pi / 2)))
       in xl = xr \<and> yl = - yr \<and> zl = zr)"
  by (simp add: fk_fin sin_30 cos_30)

text \<open>
  Claim C4, amended: both legs turn the hip abduction motor in the same sense, so the
  mirror image of the front-right toe point for \<open>(\<theta>0, \<theta>1, \<theta>2)\<close> is the front-left
  toe point for \<open>(-\<theta>0, \<theta>1, \<theta>2)\<close>: equal x, equal z, negated y. For one and the same
  triple the two legs agree in x.
\<close>

theorem fk_lateral_mirror_negated_hip:
  "forward_kinematics FL (Fin (- t0)) (Fin t1) (Fin t2) =
     (case forward_kinematics FR (Fin t0) (Fin t1) (Fin t2) of (x, y, z) \<Rightarrow> (x, - y, z))
   \<and> fst (forward_kinematics FL (Fin t0) (Fin t1) (Fin t2)) =
     fst (forward_kinematics FR (Fin t0) (Fin t1) (Fin t2))"
  by (simp add: fk_fin Let_def)

section \<open>Unreachable targets\<close>

text \<open>
  Claim C3, as stated: for a target with \<open>z\<^sup>2 + y\<^sup>2\<close> below the squared hip offset the
  inverse kinematics signals an UnreachableTarget error and never returns a NaN-bearing
  result. The function has no error path: at \<open>(10, 30, -40)\<close>, where
  \<open>z\<^sup>2 + y\<^sup>2 = 2500 < 6400\<close>, it returns three NaNs.
\<close>

theorem ik_unreachable_counterexample:
  "flt (sq (Fin (- 40)) + sq (Fin 30)) (Fin (hip_offset\<^sup>2))
   \<and> inverse_kinematics FR (Fin 10) (Fin 30) (Fin (- 40)) = (NaN, NaN, NaN)"
  by (simp add: inverse_kinematics_def sq_def hip_offset_def minus_npfloat_def Let_def)

text \<open>
  Claim C3, amended: for every leg and every finite target whose \<open>z\<^sup>2 + y\<^sup>2\<close> is
  below the squared hip offset by at least \<open>10\<^sup>-\<^sup>6\<close>, and whose \<open>x\<close> is at most
  \<open>10\<^sup>1\<^sup>5\<^sup>0\<close> in size, the inverse kinematics returns normally, and all three
  returned angles are NaN. (The margin keeps the rounding of \<open>z**2 + y**2 - o**2\<close>
  from reaching zero; the bound on \<open>x\<close> keeps \<open>x**2\<close> from overflowing.)
\<close>

theorem ik_unreachable_nan:
  assumes "z\<^sup>2 + y\<^sup>2 \<le> hip_offset\<^sup>2 - 1 / 10 ^ 6" and "\<bar>x\<bar> \<le> 10 ^ 150"
  shows "inverse_kinematics leg (Fin x) (Fin y) (Fin z) = (NaN, NaN, NaN)"
proof -
  have "z * z + y * y < hip_offset\<^sup>2"
    using assms(1) by (simp add: power2_eq_square)
  then have "np_sqrt (sq (Fin z) + sq (Fin y) - Fin (hip_offset\<^sup>2)) = NaN"
    by (simp add: sq_def minus_npfloat_def)
  then show ?thesis
    by (cases leg) (simp_all add: inverse_kinematics_def Let_def)
qed

theorem ik_unreachable_nan_witness:
  "(- 40)\<^sup>2 + 30\<^sup>2 \<le> hip_offset\<^sup>2 - 1 / 10 ^ 6 \<and> \<bar>10::real\<bar> \<le> 10 ^ 150
   \<and> inverse_kinematics HL (Fin 10) (Fin 30) (Fin (- 40)) = (NaN, NaN, NaN)"
proof -
  have h: "(- 40)\<^sup>2 + 30\<^sup>2 \<le> hip_offset\<^sup>2 - 1 / 10 ^ 6"
    by (simp add: hip_offset_def)
  have b: "\<bar>10::real\<bar> \<le> 10 ^ 150" by simp
  show ?thesis using h b ik_unreachable_nan [OF h b, of HL] by simp
qed

section \<open>The round trip through forward and inverse kinematics\<close>

text \<open>
  Claim C9: with thigh length 200, shank length 200 and hip offset 80, the toe point that
  the forward kinematics returns for front-right at \<open>(0, 0.7, -1.4)\<close>, fed back into
  the inverse kinematics of front-right, gives \<open>(0, 0.7, -1.4)\<close> again, each angle
  within \<open>10\<^sup>-\<^sup>6\<close>. (In exact arithmetic the three angles come back unchanged.)
\<close>

theorem concrete_roundtrip:
  "thigh_len = 200 \<and> shank_len = 200 \<and> hip_offset = 80 \<and>
   (case forward_kinematics FR (Fin 0) (Fin 0.7) (Fin (- 1.4)) of (x, y, z) \<Rightarrow>
      case inverse_kinematics FR x y z of (a, b, c) \<Rightarrow>
        close_to (1 / 10 ^ 6) a (Fin 0) \<and> close_to (1 / 10 ^ 6) b (Fin 0.7)
        \<and> close_to (1 / 10 ^ 6) c (Fin (- 1.4)))"
proof -
  obtain x y z where fk: "forward_kinematics FR (Fin 0) (Fin 0.7) (Fin (- 1.4)) = (x, y, z)"
    by (cases "forward_kinematics FR (Fin 0) (Fin 0.7) (Fin (- 1.4))") auto
  have "z = Fin (- (200 * cos 0.7 + 200 * cos (0.7 + - 1.4)))"
    using fk by (simp add: fk_fin Let_def)
  then have z: "\<not> flt (Fin 0) z"
    using stance_reach by (simp add: thigh_len_def shank_len_def not_less)
  have "inverse_kinematics FR x y z = (Fin 0, Fin 0.7, Fin (- 1.4))"
    by (rule ik_fk_roundtrip_ranges [OF _ _ _ _ _ _ stance_reach fk z]) simp_all
  then show ?thesis
    using fk by (simp add: thigh_len_def shank_len_def hip_offset_def)
qed

text \<open>
  Claim C2, as stated: for every leg and every angle triple strictly inside the three
  motor ranges, the inverse kinematics of the toe point of the forward kinematics gives
  the triple back within \<open>10\<^sup>-\<^sup>6\<close>. This fails for front-right at
  \<open>(0, \<pi>, -\<pi>/2)\<close>, which is inside the ranges: the thigh points up, the toe point is
  \<open>(-200, 80, 200)\<close>, above the hip, and the inverse kinematics, which takes the
  non-negative root for the reach and the absolute value of \<open>z\<close>, answers with a hip
  flexion angle of at most \<open>3\<pi>/4\<close>.
\<close>

theorem ik_fk_roundtrip_counterexample:
  "flt (Fin (- 0.803)) (Fin 0) \<and> flt (Fin 0) (Fin 0.803) \<and>
   flt (Fin (- 1.047)) (Fin pi) \<and> flt (Fin pi) (Fin 4.189) \<and>
   flt (Fin (- 2.697)) (Fin (- (pi / 2))) \<and> flt (Fin (- (pi / 2))) (Fin (- 0.916)) \<and>
   \<not> (case forward_kinematics FR (Fin 0) (Fin pi) (Fin (- (pi / 2))) of (x, y, z) \<Rightarrow>
        case inverse_kinematics FR x y z of (a, b, c) \<Rightarrow>
          close_to (1 / 10 ^ 6) a (Fin 0) \<and> close_to (1 / 10 ^ 6) b (Fin pi)
          \<and> close_to (1 / 10 ^ 6) c (Fin (- (pi / 2))))"
proof -
  obtain a b c where ik: "inverse_kinematics FR (Fin (- 200)) (Fin 80) (Fin 200) = (Fin a, Fin b, Fin c)"
    and b: "b \<le> 3 * pi / 4"
    using ik_fr_raised by blast
  have p: "3 \<le> pi" "pi < 4" using pi_ge_3 pi_less_4 by simp_all
  have "\<not> \<bar>b - pi\<bar> \<le> 1 / 10 ^ 6" using b p by (simp add: abs_le_iff)
  then show ?thesis using p by (simp add: fk_fr_raised ik)
qed

text \<open>
  Claim C2, amended: for every leg and every angle triple strictly inside the three motor
  ranges whose toe point is below the hip (the reach
  \<open>l1 cos \<theta>1 + l2 cos (\<theta>1 + \<theta>2)\<close> is at least 1, and the \<open>z\<close> that the
  forward kinematics returns is not positive), the inverse kinematics of that toe point
  gives the triple back, each angle within \<open>10\<^sup>-\<^sup>6\<close>. (A reach of at least one
  length unit keeps the square root of \<open>z**2 + y**2 - o**2\<close> away from the
  cancellation at zero reach.)
\<close>

theorem ik_fk_roundtrip_below_hip:
  assumes "flt (Fin (- 0.803)) (Fin t0)" "flt (Fin t0) (Fin 0.803)"
    and "flt (Fin (- 1.047)) (Fin t1)" "flt (Fin t1) (Fin 4.189)"
    and "flt (Fin (- 2.697)) (Fin t2)" "flt (Fin t2) (Fin (- 0.916))"
    and "1 \<le> thigh_len * cos t1 + shank_len * cos (t1 + t2)"
    and "forward_kinematics leg (Fin t0) (Fin t1) (Fin t2) = (x, y, z)"
    and "\<not> flt (Fin 0) z"
  shows "case inverse_kinematics leg x y z of (a, b, c) \<Rightarrow>
           close_to (1 / 10 ^ 6) a (Fin t0) \<and> close_to (1 / 10 ^ 6) b (Fin t1)
           \<and> close_to (1 / 10 ^ 6) c (Fin t2)"
proof -
  have h0: "0 \<le> thigh_len * cos t1 + shank_len * cos (t1 + t2)"
    using assms(7) by simp
  have "inverse_kinematics leg x y z = (Fin t0, Fin t1, Fin t2)"
    using assms(1-6) by (intro ik_fk_roundtrip_ranges [OF _ _ _ _ _ _ h0 assms(8,9)]) simp_all
  then show ?thesis by simp
qed

theorem ik_fk_roundtrip_below_hip_witness:
  "flt (Fin (- 0.803)) (Fin 0) \<and> flt (Fin 0) (Fin 0.803) \<and>
   flt (Fin (- 1.047)) (Fin 0.7) \<and> flt (Fin 0.7) (Fin 4.189) \<and>
   flt (Fin (- 2.697)) (Fin (- 1.4)) \<and> flt (Fin (- 1.4)) (Fin (- 0.916)) \<and>
   1 \<le> thigh_len * cos 0.7 + shank_len * cos (0.7 + - 1.4) \<and>
   \<not> flt (Fin 0) (snd (snd (forward_kinematics HL (Fin 0) (Fin 0.7) (Fin (- 1.4))))) \<and>
   (case forward_kinematics HL (Fin 0) (Fin 0.7) (Fin (- 1.4)) of (x, y, z) \<Rightarrow>
      case inverse_kinematics HL x y z of (a, b, c) \<Rightarrow>
        close_to (1 / 10 ^ 6) a (Fin 0) \<and> close_to (1 / 10 ^ 6) b (Fin 0.7)
        \<and> close_to (1 / 10 ^ 6) c (Fin (- 1.4)))"
proof -
  obtain x y z where fk: "forward_kinematics HL (Fin 0) (Fin 0.7) (Fin (- 1.4)) = (x, y, z)"
    by (cases "forward_kinematics HL (Fin 0) (Fin 0.7) (Fin (- 1.4))") auto
  have "z = Fin (- (200 * cos 0.7 + 200 * cos (0.7 + - 1.4)))"
    using fk by (simp add: fk_fin Let_def)
  then have z: "\<not> flt (Fin 0) z"
    using stance_reach by (simp add: thigh_len_def shank_len_def not_less)
  have r: "flt (Fin (- 0.803)) (Fin 0)" "flt (Fin 0) (Fin 0.803)"
    "flt (Fin (- 1.047)) (Fin 0.7)" "flt (Fin 0.7) (Fin 4.189)"
    "flt (Fin (- 2.697)) (Fin (- 1.4))" "flt (Fin (- 1.4)) (Fin (- 0.916))"
    by simp_all
  show ?thesis
    using ik_fk_roundtrip_below_hip [OF r stance_reach_margin fk z] r stance_reach_margin fk z
    by (simp del: close_to.simps)
qed

section \<open>The identity transform\<close>

text \<open>
  Claim C6, as stated: for every starting posture with all twelve angles within their
  motor ranges, the pipeline with yaw, pitch, roll and \<open>\<Delta>z\<close> all zero produces a
  candidate equal to the start within \<open>10\<^sup>-\<^sup>9\<close>. This fails for the posture that
  has front-right at \<open>(0, \<pi>, -\<pi>/2)\<close> and the other legs at \<open>(0, 0.7, -1.4)\<close>:
  all four legs pass the limit test, and the candidate hip flexion angle of front-right
  is at most \<open>3\<pi>/4\<close>.
\<close>

theorem identity_transform_counterexample:
  "(let start = (\<lambda>leg. (Fin 0, Fin 0.7, Fin (- 1.4)))(FR := (Fin 0, Fin pi, Fin (- (pi / 2))))
    in limits_ok (start FR) \<and> limits_ok (start FL) \<and> limits_ok (start HR) \<and> limits_ok (start HL)
       \<and> \<not> close_to (1 / 10 ^ 9)
             (component H_fe (candidate (Fin 0) (Fin 0) (Fin 0) (Fin 0) FR (start FR)))
             (component H_fe (start FR)))"
proof -
  obtain a b c where ik: "inverse_kinematics FR (Fin (- 200)) (Fin 80) (Fin 200) = (Fin a, Fin b, Fin c)"
    and b: "b \<le> 3 * pi / 4"
    using ik_fr_raised by blast
  have p: "3 \<le> pi" "pi < 4" using pi_ge_3 pi_less_4 by simp_all
  have "\<not> \<bar>b - pi\<bar> \<le> 1 / 10 ^ 9" using b p by (simp add: abs_le_iff)
  then show ?thesis using p by (simp add: limits_ok_def candidate_zero fk_fr_raised ik)
qed

text \<open>
  Claim C6, amended: for every leg whose starting angles are within the motor ranges and
  whose toe point is below the hip (reach at least 1, \<open>z\<close> of the forward kinematics
  not positive), the pipeline with yaw, pitch, roll and \<open>\<Delta>z\<close> all zero produces the
  starting angles of that leg again, each within \<open>10\<^sup>-\<^sup>9\<close>.
\<close>

theorem identity_transform_below_hip:
  assumes "- 0.803 \<le> t0" "t0 \<le> 0.803"
    and "- 1.047 \<le> t1" "t1 \<le> 4.189"
    and "- 2.697 \<le> t2" "t2 \<le> - 0.916"
    and "1 \<le> thigh_len * cos t1 + shank_len * cos (t1 + t2)"
    and "\<not> flt (Fin 0) (snd (snd (forward_kinematics leg (Fin t0) (Fin t1) (Fin t2))))"
  shows "case candidate (Fin 0) (Fin 0) (Fin 0) (Fin 0) leg (Fin t0, Fin t1, Fin t2) of
           (a, b, c) \<Rightarrow>
             close_to (1 / 10 ^ 9) a (Fin t0) \<and> close_to (1 / 10 ^ 9) b (Fin t1)
             \<and> close_to (1 / 10 ^ 9) c (Fin t2)"
proof -
  obtain x y z where fk: "forward_kinematics leg (Fin t0) (Fin t1) (Fin t2) = (x, y, z)"
    by (cases "forward_kinematics leg (Fin t0) (Fin t1) (Fin t2)") auto
  have z: "\<not> flt (Fin 0) z" using assms(8) by (simp add: fk)
  have h0: "0 \<le> thigh_len * cos t1 + shank_len * cos (t1 + t2)"
    using assms(7) by simp
  have "inverse_kinematics leg x y z = (Fin t0, Fin t1, Fin t2)"
    by (rule ik_fk_roundtrip_ranges [OF assms(1-6) h0 fk z])
  then show ?thesis by (simp add: candidate_zero fk)
qed

theorem identity_transform_below_hip_witness:
  "- 0.803 \<le> (0::real) \<and> (0::real) \<le> 0.803 \<and> - 1.047 \<le> (0.7::real) \<and> (0.7::real) \<le> 4.189 \<and>
   - 2.697 \<le> (- 1.4::real) \<and> (- 1.4::real) \<le> - 0.916 \<and>
   1 \<le> thigh_len * cos 0.7 + shank_len * cos (0.7 + - 1.4) \<and>
   \<not> flt (Fin 0) (snd (snd (forward_kinematics FL (Fin 0) (Fin 0.7) (Fin (- 1.4))))) \<and>
   (case candidate (Fin 0) (Fin 0) (Fin 0) (Fin 0) FL (Fin 0, Fin 0.7, Fin (- 1.4)) of
      (a, b, c) \<Rightarrow>
        close_to (1 / 10 ^ 9) a (Fin 0) \<and> close_to (1 / 10 ^ 9) b (Fin 0.7)
        \<and> close_to (1 / 10 ^ 9) c (Fin (- 1.4)))"
proof -
  have "snd (snd (forward_kinematics FL (Fin 0) (Fin 0.7) (Fin (- 1.4))))
          = Fin (- (200 * cos 0.7 + 200 * cos (0.7 + - 1.4)))"
    by (simp add: fk_fin Let_def)
  then have z: "\<not> flt (Fin 0) (snd (snd (forward_kinematics FL (Fin 0) (Fin 0.7) (Fin (- 1.4)))))"
    using stance_reach by (simp add: thigh_len_def shank_len_def not_less)
  show ?thesis
    using identity_transform_below_hip [OF _ _ _ _ _ _ stance_reach_margin z] stance_reach_margin z
    by (simp del: close_to.simps)
qed

section \<open>The control cycle\<close>

text \<open>
  Claim C1: if in one cycle of \<open>postural_control\<close> the candidate angles of any single
  leg fail the test of the three motor ranges, the whole update is aborted: no motor
  command is dispatched for any leg, and the position targets held by the actuator after
  the cycle are the ones it held before.
\<close>

theorem cycle_aborts_whole_update:
  assumes "\<not> limits_ok (candidate a b g dz leg (starting_posture reference_posture w leg))"
  shows "commands (postural_control a b g dz reference_posture w) = commands w
         \<and> joint_target (postural_control a b g dz reference_posture w) = joint_target w"
  using postural_control_abort(1,2) [OF assms] by simp

theorem cycle_aborts_whole_update_witness:
  "\<not> limits_ok (candidate (Fin 0) (Fin 0) (Fin 0) (Fin 1000) HL (starting_posture None home HL))
   \<and> commands (postural_control (Fin 0) (Fin 0) (Fin 0) (Fin 1000) None home) = commands home
   \<and> joint_target (postural_control (Fin 0) (Fin 0) (Fin 0) (Fin 1000) None home) = joint_target home"
proof -
  have "component Knee (candidate (Fin 0) (Fin 0) (Fin 0) (Fin 1000) HL (starting_posture None home HL)) = NaN"
    unfolding home_posture by (rule candidate_lowered)
  then have h: "\<not> limits_ok (candidate (Fin 0) (Fin 0) (Fin 0) (Fin 1000) HL (starting_posture None home HL))"
    using limits_ok_not_nan by blast
  show ?thesis using h cycle_aborts_whole_update [OF h] by simp
qed

text \<open>
  Claim C7: no motor command that \<open>postural_control\<close> dispatches contains a NaN
  angle, and when the inverse kinematics yields NaN for some angle of some leg, the cycle
  dispatches nothing. (A NaN fails every comparison of the limit test, so the loop leaves
  through \<open>return\<close> before the dispatch loop.)
\<close>

theorem dispatch_never_nan:
  "\<exists>new. commands (postural_control a b g dz reference_posture w) = commands w @ new
     \<and> (\<forall>c\<in>set new. NaN \<notin> set (snd c))
     \<and> ((\<exists>leg m. component m (candidate a b g dz leg (starting_posture reference_posture w leg)) = NaN)
          \<longrightarrow> new = [])"
proof (cases "\<forall>l. limits_ok (candidate a b g dz l (starting_posture reference_posture w l))")
  case True
  let ?new = "map (\<lambda>m. (map (motor_indices m) leg_list,
                 map (\<lambda>l. component m (candidate a b g dz l (starting_posture reference_posture w l))) leg_list))
              motor_list"
  have "commands (postural_control a b g dz reference_posture w) = commands w @ ?new"
    by (rule postural_control_success(1) [OF True])
  moreover have "\<forall>c\<in>set ?new. NaN \<notin> set (snd c)"
  proof
    fix c assume "c \<in> set ?new"
    then obtain m where "c = (map (motor_indices m) leg_list,
        map (\<lambda>l. component m (candidate a b g dz l (starting_posture reference_posture w l))) leg_list)"
      by (auto simp add: image_iff)
    then have c: "snd c = map (\<lambda>l. component m (candidate a b g dz l (starting_posture reference_posture w l))) leg_list"
      by simp
    have "component m (candidate a b g dz l (starting_posture reference_posture w l)) \<noteq> NaN" for l
      using True limits_ok_not_nan by blast
    then show "NaN \<notin> set (snd c)" unfolding c by (metis (mono_tags, lifting) imageE list.set_map)
  qed
  moreover have "\<not> (\<exists>leg m. component m (candidate a b g dz leg (starting_posture reference_posture w leg)) = NaN)"
    using True limits_ok_not_nan by blast
  ultimately show ?thesis by blast
next
  case False
  then obtain l where "\<not> limits_ok (candidate a b g dz l (starting_posture reference_posture w l))"
    by blast
  then have "commands (postural_control a b g dz reference_posture w) = commands w @ []"
    using postural_control_abort(1) by simp
  then show ?thesis by force
qed

theorem dispatch_never_nan_witness:
  "(\<exists>leg m. component m (candidate (Fin 0) (Fin 0) (Fin 0) (Fin 1000) leg (starting_posture None home leg)) = NaN)
   \<and> commands (postural_control (Fin 0) (Fin 0) (Fin 0) (Fin 1000) None home) = commands home
   \<and> commands (postural_control (Fin 0) (Fin 0) (Fin 0) (Fin 0) None home) =
       commands home @ [([1, 6, 11, 16], [Fin 0, Fin 0, Fin 0, Fin 0]),
                        ([3, 8, 13, 18], [Fin 0.7, Fin 0.7, Fin 0.7, Fin 0.7]),
                        ([4, 9, 14, 19], [Fin (- 1.4), Fin (- 1.4), Fin (- 1.4), Fin (- 1.4)])]
   \<and> NaN \<notin> set [Fin 0, Fin 0, Fin 0, Fin 0]
   \<and> NaN \<notin> set [Fin 0.7, Fin 0.7, Fin 0.7, Fin 0.7]
   \<and> NaN \<notin> set [Fin (- 1.4), Fin (- 1.4), Fin (- 1.4), Fin (- 1.4)]"
proof -
  have "component Knee (candidate (Fin 0) (Fin 0) (Fin 0) (Fin 1000) FR (starting_posture None home FR)) = NaN"
    unfolding home_posture by (rule candidate_lowered)
  then have n: "\<exists>leg m. component m (candidate (Fin 0) (Fin 0) (Fin 0) (Fin 1000) leg (starting_posture None home leg)) = NaN"
    by blast
  have a: "commands (postural_control (Fin 0) (Fin 0) (Fin 0) (Fin 1000) None home) = commands home"
    using dispatch_never_nan [of "Fin 0" "Fin 0" "Fin 0" "Fin 1000" None home] n by auto
  obtain new where new: "commands (postural_control (Fin 0) (Fin 0) (Fin 0) (Fin 0) None home) = commands home @ new"
    and nn: "\<forall>c\<in>set new. NaN \<notin> set (snd c)"
    using dispatch_never_nan [of "Fin 0" "Fin 0" "Fin 0" "Fin 0" None home] by blast
  have "new = [([1, 6, 11, 16], [Fin 0, Fin 0, Fin 0, Fin 0]),
               ([3, 8, 13, 18], [Fin 0.7, Fin 0.7, Fin 0.7, Fin 0.7]),
               ([4, 9, 14, 19], [Fin (- 1.4), Fin (- 1.4), Fin (- 1.4), Fin (- 1.4)])]"
    using new unfolding home_commands_zero by simp
  then have "NaN \<notin> set [Fin 0, Fin 0, Fin 0, Fin 0]
     \<and> NaN \<notin> set [Fin 0.7, Fin 0.7, Fin 0.7, Fin 0.7]
     \<and> NaN \<notin> set [Fin (- 1.4), Fin (- 1.4), Fin (- 1.4), Fin (- 1.4)]"
    using nn by simp
  then show ?thesis using n a home_commands_zero by blast
qed






text \<open>
  Claim C5, as stated: a rejected cycle hands the caller an explicit, inspectable
  JointLimitExceeded outcome that identifies the legs and motors over their range and by
  how much. It does not: the two rejected cycles below differ in the leg (front-right,
  hind-right), in the motor (knee, hip abduction) and in the amount (0.916, 0.197), and
  everything they leave behind is equal: the same log line, no motor command, the same
  targets and positions.
\<close>

theorem rejection_outcome_counterexample:
  "(let A = (\<lambda>leg. (Fin 0, Fin 0.7, Fin (- 1.4)))(FR := (Fin 0, Fin 0, Fin 0));
        B = (\<lambda>leg. (Fin 0, Fin 0.7, Fin (- 1.4)))(HR := (Fin 1, Fin 0.7, Fin (- 1.4)));
        (ra, w1) = new_frame A home;
        (rb, w) = new_frame B w1;
        wa = postural_control (Fin 0) (Fin 0) (Fin 0) (Fin 0) (Some ra) w;
        wb = postural_control (Fin 0) (Fin 0) (Fin 0) (Fin 0) (Some rb) w
    in component Knee (candidate (Fin 0) (Fin 0) (Fin 0) (Fin 0) FR (starting_posture (Some ra) w FR)) = Fin 0
       \<and> limits_ok (candidate (Fin 0) (Fin 0) (Fin 0) (Fin 0) FR (starting_posture (Some rb) w FR))
       \<and> component H_aa (candidate (Fin 0) (Fin 0) (Fin 0) (Fin 0) HR (starting_posture (Some rb) w HR)) = Fin 1
       \<and> log wa = log wb \<and> commands wa = commands wb \<and> joint_target wa = joint_target wb
       \<and> joint_position wa = joint_position wb
       \<and> log wa = log w @ [''Motor limit reached''])"
proof -
  define A :: posture where "A = (\<lambda>leg. (Fin 0, Fin 0.7, Fin (- 1.4)))(FR := (Fin 0, Fin 0, Fin 0))"
  define B :: posture where "B = (\<lambda>leg. (Fin 0, Fin 0.7, Fin (- 1.4)))(HR := (Fin 1, Fin 0.7, Fin (- 1.4)))"
  obtain ra w1 where n1: "new_frame A home = (ra, w1)" by (cases "new_frame A home") auto
  obtain rb w where n2: "new_frame B w1 = (rb, w)" by (cases "new_frame B w1") auto
  have sp: "starting_posture (Some ra) w FR = (Fin 0, Fin 0, Fin 0)"
    "starting_posture (Some rb) w FR = (Fin 0, Fin 0.7, Fin (- 1.4))"
    "starting_posture (Some rb) w HR = (Fin 1, Fin 0.7, Fin (- 1.4))"
    using n1 n2 by (auto simp add: new_frame_def starting_posture_def Let_def A_def B_def)
  have ka: "component Knee (candidate (Fin 0) (Fin 0) (Fin 0) (Fin 0) FR (starting_posture (Some ra) w FR)) = Fin 0"
    unfolding sp by (rule candidate_straight)
  have "limits_ok (Fin 0, Fin 0.7, Fin (- 1.4))" by (simp add: limits_ok_def)
  then have okb: "limits_ok (candidate (Fin 0) (Fin 0) (Fin 0) (Fin 0) FR (starting_posture (Some rb) w FR))"
    unfolding sp candidate_stance .
  have "(0::real) \<le> 1" "(1::real) \<le> pi / 2" using pi_ge_3 by simp_all
  then have "candidate (Fin 0) (Fin 0) (Fin 0) (Fin 0) HR (Fin 1, Fin 0.7, Fin (- 1.4)) = (Fin 1, Fin 0.7, Fin (- 1.4))"
    by (intro candidate_right_abducted) simp_all
  then have cb: "candidate (Fin 0) (Fin 0) (Fin 0) (Fin 0) HR (starting_posture (Some rb) w HR) = (Fin 1, Fin 0.7, Fin (- 1.4))"
    unfolding sp .
  have na: "\<not> limits_ok (candidate (Fin 0) (Fin 0) (Fin 0) (Fin 0) FR (starting_posture (Some ra) w FR))"
    using ka by (rule knee_zero_rejected)
  have nb: "\<not> limits_ok (candidate (Fin 0) (Fin 0) (Fin 0) (Fin 0) HR (starting_posture (Some rb) w HR))"
    unfolding cb by (simp add: limits_ok_def)
  show ?thesis
    unfolding A_def [symmetric] B_def [symmetric] n1 n2 Let_def prod.case
    using ka okb cb postural_control_abort [OF na] postural_control_abort [OF nb] by simp
qed

text \<open>
  Claim C5, amended: a rejected cycle returns like any other (\<open>None\<close>); what it
  leaves behind is the one fixed line \<open>Motor limit reached\<close> in the log, which names
  no leg, no motor and no amount. The trace of motor commands, the targets and the sensed
  positions are unchanged.
\<close>

theorem rejection_only_logged:
  assumes "\<not> limits_ok (candidate a b g dz leg (starting_posture reference_posture w leg))"
  shows "log (postural_control a b g dz reference_posture w) = log w @ [''Motor limit reached'']
         \<and> commands (postural_control a b g dz reference_posture w) = commands w
         \<and> joint_target (postural_control a b g dz reference_posture w) = joint_target w
         \<and> joint_position (postural_control a b g dz reference_posture w) = joint_position w"
  using postural_control_abort [OF assms] by simp

theorem rejection_only_logged_witness:
  "(let A = (\<lambda>leg. (Fin 0, Fin 0.7, Fin (- 1.4)))(FR := (Fin 0, Fin 0, Fin 0));
        (r, w) = new_frame A home;
        w' = postural_control (Fin 0) (Fin 0) (Fin 0) (Fin 0) (Some r) w
    in \<not> limits_ok (candidate (Fin 0) (Fin 0) (Fin 0) (Fin 0) FR (starting_posture (Some r) w FR))
       \<and> log w' = log w @ [''Motor limit reached''] \<and> commands w' = commands w
       \<and> joint_target w' = joint_target w \<and> joint_position w' = joint_position w)"
proof -
  define A :: posture where "A = (\<lambda>leg. (Fin 0, Fin 0.7, Fin (- 1.4)))(FR := (Fin 0, Fin 0, Fin 0))"
  obtain r w where nf: "new_frame A home = (r, w)" by (cases "new_frame A home") auto
  have sp: "starting_posture (Some r) w FR = (Fin 0, Fin 0, Fin 0)"
    using nf by (auto simp add: new_frame_def starting_posture_def Let_def A_def)
  have na: "\<not> limits_ok (candidate (Fin 0) (Fin 0) (Fin 0) (Fin 0) FR (starting_posture (Some r) w FR))"
    unfolding sp by (rule knee_zero_rejected) (rule candidate_straight)
  show ?thesis
    unfolding A_def [symmetric] nf Let_def
    using na rejection_only_logged [OF na] by simp
qed

end
